theory Spec2Isabelle
  imports Main "HOL-Library.List_Lexorder" "HOL-Library.Multiset"
begin

section \<open>Python strings\<close>

text \<open>
  A Python \<^verbatim>\<open>str\<close> is a sequence of Unicode code points; \<^verbatim>\<open>len\<close>, slicing,
  \<^verbatim>\<open>in\<close> and the regular expressions of the source all count code points. A string is
  therefore a list of code points (natural numbers), and a literal of the source is written
  \<open>py ''...''\<close>. The order on strings is the lexicographic order on code points, which is
  the order SQLite's default collation gives to TEXT values.
\<close>

type_synonym pystr = "nat list"

definition py :: "string \<Rightarrow> pystr" where
  "py cs = map of_char cs"

text \<open>\<^verbatim>\<open>s.startswith(p)\<close>\<close>

fun startswith :: "pystr \<Rightarrow> pystr \<Rightarrow> bool" where
  "startswith s [] = True"
| "startswith [] (p # ps) = False"
| "startswith (c # cs) (p # ps) = (c = p \<and> startswith cs ps)"

text \<open>\<^verbatim>\<open>s.endswith(p)\<close>\<close>

definition endswith :: "pystr \<Rightarrow> pystr \<Rightarrow> bool" where
  "endswith s p = startswith (rev s) (rev p)"

text \<open>\<^verbatim>\<open>sub in s\<close>: \<open>sub\<close> occurs in \<open>s\<close> as a contiguous block.\<close>

fun str_in :: "pystr \<Rightarrow> pystr \<Rightarrow> bool" where
  "str_in sub [] = (sub = [])"
| "str_in sub (c # cs) = (startswith (c # cs) sub \<or> str_in sub cs)"

text \<open>\<^verbatim>\<open>any(p in s for p in ps)\<close>\<close>

definition any_in :: "pystr list \<Rightarrow> pystr \<Rightarrow> bool" where
  "any_in ps s = list_ex (\<lambda>p. str_in p s) ps"

text \<open>\<^verbatim>\<open>s.find(sub)\<close>: the lowest index of an occurrence, or \<open>-1\<close>.\<close>

fun find_from :: "pystr \<Rightarrow> pystr \<Rightarrow> nat \<Rightarrow> int" where
  "find_from sub [] i = (if sub = [] then int i else - 1)"
| "find_from sub (c # cs) i =
     (if startswith (c # cs) sub then int i else find_from sub cs (Suc i))"

definition str_find :: "pystr \<Rightarrow> pystr \<Rightarrow> int" where
  "str_find s sub = find_from sub s 0"

text \<open>
  The case mapping of Unicode belongs to the Python library, not to the repository:
  \<^verbatim>\<open>s.lower()\<close> and \<^verbatim>\<open>c.isupper()\<close> (on a string of one character) are the two
  fields of a record \<open>L\<close> that every definition using them takes as a parameter. Nothing is
  assumed of them: what is proved holds for every case mapping.
\<close>

record pylib =
  str_lower :: "pystr \<Rightarrow> pystr"
  chr_isupper :: "nat \<Rightarrow> bool"

text \<open>
  On a string of ASCII code points \<^verbatim>\<open>s.lower()\<close> adds 32 to the code points of
  \<^verbatim>\<open>A\<close> to \<^verbatim>\<open>Z\<close>, and among the ASCII characters \<^verbatim>\<open>c.isupper()\<close> holds of these
  letters. The examples use ASCII strings only, with this library.
\<close>

definition ascii_lower :: "pystr \<Rightarrow> pystr" where
  "ascii_lower s = map (\<lambda>c. if 65 \<le> c \<and> c \<le> 90 then c + 32 else c) s"

definition ascii_isupper :: "nat \<Rightarrow> bool" where
  "ascii_isupper c = (65 \<le> c \<and> c \<le> 90)"

definition ascii_lib :: pylib where
  "ascii_lib = \<lparr>str_lower = ascii_lower, chr_isupper = ascii_isupper\<rparr>"

text \<open>
  A string can be encoded as UTF-8 when it holds no surrogate code point (U+D800 to
  U+DFFF). The database driver encodes every string it binds to a statement, and raises
  \<^verbatim>\<open>UnicodeEncodeError\<close> when it cannot.
\<close>

definition encodable :: "pystr \<Rightarrow> bool" where
  "encodable s = list_all (\<lambda>c. c < 55296 \<or> 57343 < c) s"

text \<open>
  The white space of \<^verbatim>\<open>str.split()\<close>, \<^verbatim>\<open>str.strip()\<close> and of \<^verbatim>\<open>\s\<close> in a
  \<^verbatim>\<open>str\<close> pattern: the code points for which \<^verbatim>\<open>str.isspace()\<close> holds.
\<close>

definition is_space :: "nat \<Rightarrow> bool" where
  "is_space c =
     ((9 \<le> c \<and> c \<le> 13) \<or> (28 \<le> c \<and> c \<le> 32) \<or> c = 133 \<or> c = 160 \<or> c = 5760
      \<or> (8192 \<le> c \<and> c \<le> 8202) \<or> c = 8232 \<or> c = 8233 \<or> c = 8239 \<or> c = 8287
      \<or> c = 12288)"

text \<open>\<^verbatim>\<open>s.strip()\<close>\<close>

definition strip :: "pystr \<Rightarrow> pystr" where
  "strip s = rev (dropWhile is_space (rev (dropWhile is_space s)))"

text \<open>\<^verbatim>\<open>s.split()\<close>: the maximal blocks free of white space, in order.\<close>

fun split_acc :: "pystr \<Rightarrow> pystr \<Rightarrow> pystr list" where
  "split_acc w [] = (if w = [] then [] else [w])"
| "split_acc w (c # cs) =
     (if is_space c then (if w = [] then split_acc [] cs else w # split_acc [] cs)
      else split_acc (w @ [c]) cs)"

definition split_ws :: "pystr \<Rightarrow> pystr list" where
  "split_ws s = split_acc [] s"

text \<open>\<^verbatim>\<open>s.split(d)\<close> for a separator \<open>d\<close> of one code point: one piece more than separators.\<close>

fun split_on :: "nat \<Rightarrow> pystr \<Rightarrow> pystr list" where
  "split_on d [] = [[]]"
| "split_on d (c # cs) =
     (case split_on d cs of
        [] \<Rightarrow> [[]]
      | p # ps \<Rightarrow> if c = d then [] # p # ps else (c # p) # ps)"

text \<open>\<^verbatim>\<open>sep.join(xs)\<close>\<close>

fun join :: "pystr \<Rightarrow> pystr list \<Rightarrow> pystr" where
  "join sep [] = []"
| "join sep [x] = x"
| "join sep (x # y # ys) = x @ sep @ join sep (y # ys)"

text \<open>
  \<^verbatim>\<open>s.replace(old, "")\<close>: the occurrences of \<open>old\<close> are removed from left to right, without
  overlap. An empty \<open>old\<close> with an empty replacement leaves the string as it is.
\<close>

fun remove_all :: "pystr \<Rightarrow> pystr \<Rightarrow> pystr" where
  "remove_all old [] = []"
| "remove_all old (c # cs) =
     (if old \<noteq> [] \<and> startswith (c # cs) old
      then remove_all old (drop (length old - 1) cs)
      else c # remove_all old cs)"

section \<open>The session store of the agent\<close>

text \<open>
  \<^verbatim>\<open>LangChainMemoryManager\<close> of \<^verbatim>\<open>krishna_agent.py\<close> holds a database connection with the
  tables \<^verbatim>\<open>conversations\<close>, \<^verbatim>\<open>mood_checkins\<close> and \<^verbatim>\<open>conversation_summaries\<close>, and one
  in-process chat buffer (\<^verbatim>\<open>self.memory.chat_memory.messages\<close>). Every statement the class
  executes is modelled on the tables as lists of rows. Two failures of \<^verbatim>\<open>execute\<close> are
  modelled: on a closed connection (\<^verbatim>\<open>close()\<close>) it raises \<^verbatim>\<open>ProgrammingError\<close>, and
  with a string parameter that cannot be encoded as UTF-8 it raises
  \<^verbatim>\<open>UnicodeEncodeError\<close>; in both cases the tables are left as they are.
  The reading of the clock at a write (\<^verbatim>\<open>datetime.now().isoformat()\<close>) is an argument.
\<close>

text \<open>The exceptions the modelled code raises; all are subclasses of \<^verbatim>\<open>Exception\<close>.\<close>

datatype exn =
    AttributeError string
  | ProgrammingError
  | UnicodeEncodeError
  | GatewayError

record conv_row =
  c_id :: nat
  c_user_id :: pystr
  c_timestamp :: pystr
  c_message :: pystr
  c_sender :: pystr

record mood_row =
  m_id :: nat
  m_user_id :: pystr
  m_timestamp :: pystr
  m_mood :: "pystr option"

record summary_row =
  s_id :: nat
  s_user_id :: pystr
  s_timestamp :: pystr
  s_summary :: pystr

text \<open>
  The chat buffer holds LangChain message objects (\<^verbatim>\<open>type\<close> is \<^verbatim>\<open>"human"\<close> or \<^verbatim>\<open>"ai"\<close>,
  with a \<^verbatim>\<open>content\<close>); the database path of \<^verbatim>\<open>get_conversation_messages\<close> builds
  dictionaries instead, kept here with their keys.
\<close>

datatype message =
    HumanMessage pystr
  | AIMessage pystr
  | Dict "(string \<times> pystr) list"

record langchain_memory_manager =
  conn_open :: bool
  conversations :: "conv_row list"
  mood_checkins :: "mood_row list"
  conversation_summaries :: "summary_row list"
  chat_memory :: "message list"

text \<open>\<^verbatim>\<open>INTEGER PRIMARY KEY\<close>: a new row gets one more than the largest id of the table.\<close>

definition next_id :: "nat list \<Rightarrow> nat" where
  "next_id ids = (if ids = [] then 1 else Suc (foldr max ids 0))"

text \<open>
  \<^verbatim>\<open>cursor.execute(statement, params)\<close>: the exception it raises, if any, for the string
  parameters \<open>params\<close>.
\<close>

definition execute_raises :: "langchain_memory_manager \<Rightarrow> pystr list \<Rightarrow> exn option" where
  "execute_raises mm params =
     (if conn_open mm then
        (if list_all encodable params then None else Some UnicodeEncodeError)
      else Some ProgrammingError)"

text \<open>
  \<^verbatim>\<open>INSERT INTO conversations (user_id, timestamp, message, sender) VALUES (?, ?, ?, ?)\<close>
  followed by \<^verbatim>\<open>commit\<close>.
\<close>

definition insert_conversation ::
  "langchain_memory_manager \<Rightarrow> pystr \<Rightarrow> pystr \<Rightarrow> pystr \<Rightarrow> pystr \<Rightarrow> exn + langchain_memory_manager" where
  "insert_conversation mm uid ts msg sndr =
     (case execute_raises mm [uid, ts, msg, sndr] of
        Some x \<Rightarrow> Inl x
      | None \<Rightarrow>
          Inr (mm\<lparr>conversations := conversations mm @
                 [\<lparr>c_id = next_id (map c_id (conversations mm)), c_user_id = uid,
                   c_timestamp = ts, c_message = msg, c_sender = sndr\<rparr>]\<rparr>))"

text \<open>
  \<^verbatim>\<open>save_message\<close>: insert the row, then append the message to the chat buffer. When
  the insert raises, the buffer is not touched and a row with the same user, timestamp and
  sender but the content \<^verbatim>\<open>Message content unavailable\<close> is inserted instead; when this
  insert raises as well, nothing is written. Both exceptions are caught and logged, so
  \<^verbatim>\<open>save_message\<close> never raises.
\<close>

definition save_message ::
  "pystr \<Rightarrow> langchain_memory_manager \<Rightarrow> pystr \<Rightarrow> pystr \<Rightarrow> pystr \<Rightarrow> langchain_memory_manager" where
  "save_message now mm uid msg sndr =
     (case insert_conversation mm uid now msg sndr of
        Inr mm1 \<Rightarrow>
          mm1\<lparr>chat_memory := chat_memory mm1 @
                 [if sndr = py ''user'' then HumanMessage msg else AIMessage msg]\<rparr>
      | Inl x \<Rightarrow>
          (case insert_conversation mm uid now (py ''Message content unavailable'') sndr of
             Inr mm1 \<Rightarrow> mm1
           | Inl y \<Rightarrow> mm))"

text \<open>
  \<^verbatim>\<open>SELECT ... FROM conversations WHERE user_id = ? ORDER BY timestamp ASC\<close>; rows of equal
  timestamp keep the order of the table.
\<close>

definition select_conversations :: "langchain_memory_manager \<Rightarrow> pystr \<Rightarrow> conv_row list" where
  "select_conversations mm uid =
     sort_key c_timestamp (filter (\<lambda>r. c_user_id r = uid) (conversations mm))"

definition row_to_dict :: "conv_row \<Rightarrow> message" where
  "row_to_dict r =
     (if c_sender r = py ''user''
      then Dict [(''role'', py ''user''), (''content'', c_message r)]
      else Dict [(''role'', py ''assistant''), (''content'', c_message r)])"

text \<open>
  \<^verbatim>\<open>get_conversation_messages(user_id, limit)\<close>: the chat buffer when it is not empty,
  whatever \<^verbatim>\<open>user_id\<close> is; otherwise the first \<open>limit\<close> rows of the session as
  dictionaries, and the empty list when the query raises.
\<close>

definition get_conversation_messages :: "langchain_memory_manager \<Rightarrow> pystr \<Rightarrow> nat \<Rightarrow> message list" where
  "get_conversation_messages mm uid limit =
     (if chat_memory mm \<noteq> [] then chat_memory mm
      else
        (case execute_raises mm [uid] of
           None \<Rightarrow> map row_to_dict (take limit (select_conversations mm uid))
         | Some x \<Rightarrow> []))"

definition row_to_message :: "conv_row \<Rightarrow> message" where
  "row_to_message r =
     (if c_sender r = py ''user'' then HumanMessage (c_message r) else AIMessage (c_message r))"

text \<open>
  \<^verbatim>\<open>load_conversation_history(user_id, limit)\<close>: the buffer is cleared, then filled with
  the first \<open>limit\<close> rows of the session, oldest first. When the query raises, the buffer stays
  cleared.
\<close>

definition load_conversation_history :: "langchain_memory_manager \<Rightarrow> pystr \<Rightarrow> nat \<Rightarrow> langchain_memory_manager" where
  "load_conversation_history mm uid limit =
     (case execute_raises mm [uid] of
        None \<Rightarrow> mm\<lparr>chat_memory := map row_to_message (take limit (select_conversations mm uid))\<rparr>
      | Some x \<Rightarrow> mm\<lparr>chat_memory := []\<rparr>)"

section \<open>Scripture retrieval\<close>

text \<open>The values met in the metadata of a document and in the results of the retrievers.\<close>

datatype pyval = PyNone | PyStr pystr | PyInt int

text \<open>\<^verbatim>\<open>d.get(k, default)\<close> on a dictionary with string keys.\<close>

definition dict_get :: "(string \<times> 'v) list \<Rightarrow> string \<Rightarrow> 'v \<Rightarrow> 'v" where
  "dict_get d k dflt = (case map_of d k of None \<Rightarrow> dflt | Some v \<Rightarrow> v)"

subsection \<open>\<^verbatim>\<open>ScriptureLangChain\<close>: term overlap over the chunks\<close>

record document =
  page_content :: pystr
  metadata :: "(string \<times> pyval) list"

record passage =
  p_content :: pystr
  p_source :: pyval
  p_score :: nat
  p_page :: pyval

text \<open>\<^verbatim>\<open>sum(1 for term in query_terms if term in content)\<close>\<close>

definition doc_score :: "pylib \<Rightarrow> pystr list \<Rightarrow> document \<Rightarrow> nat" where
  "doc_score L query_terms doc =
     length (filter (\<lambda>term. str_in term (str_lower L (page_content doc))) query_terms)"

definition to_passage :: "document \<times> nat \<Rightarrow> passage" where
  "to_passage m =
     \<lparr>p_content = page_content (fst m),
      p_source = dict_get (metadata (fst m)) ''source_display''
                   (dict_get (metadata (fst m)) ''source'' (PyStr (py ''Unknown''))),
      p_score = snd m,
      p_page = dict_get (metadata (fst m)) ''page'' (PyInt 0)\<rparr>"

text \<open>
  \<^verbatim>\<open>_keyword_fallback(query, k)\<close>. \<^verbatim>\<open>matches.sort(key=..., reverse=True)\<close> is a
  stable sort by decreasing score: chunks of equal score keep the order of the corpus.
\<close>

definition keyword_fallback :: "pylib \<Rightarrow> document list \<Rightarrow> pystr \<Rightarrow> nat \<Rightarrow> passage list" where
  "keyword_fallback L documents query k =
     (if documents = [] then []
      else
        (let query_terms = split_ws (str_lower L query);
             matches = filter (\<lambda>m. snd m > 0)
                         (map (\<lambda>doc. (doc, doc_score L query_terms doc)) documents)
         in map to_passage (take k (sort_key (\<lambda>m. - int (snd m)) matches))))"

text \<open>
  \<^verbatim>\<open>find_relevant_passages(query, k)\<close> calls \<^verbatim>\<open>_keyword_fallback\<close> inside a
  \<^verbatim>\<open>try\<close>; nothing in \<^verbatim>\<open>_keyword_fallback\<close> raises on strings.
\<close>

definition find_relevant_passages :: "pylib \<Rightarrow> document list \<Rightarrow> pystr \<Rightarrow> nat \<Rightarrow> passage list" where
  "find_relevant_passages L documents query k = keyword_fallback L documents query k"

text \<open>\<^verbatim>\<open>ScriptureLangChain.find_relevant_passage(query)\<close>: always a tuple of three.\<close>

definition lc_find_relevant_passage ::
  "pylib \<Rightarrow> document list \<Rightarrow> pystr \<Rightarrow> pyval \<times> pyval \<times> pyval" where
  "lc_find_relevant_passage L documents query =
     (case find_relevant_passages L documents query 1 of
        [] \<Rightarrow> (PyNone, PyNone, PyNone)
      | p # ps \<Rightarrow> (PyStr (p_content p), p_source p, p_page p))"

subsection \<open>\<^verbatim>\<open>ScriptureReader\<close>: term overlap over the whole texts\<close>

text \<open>
  \<^verbatim>\<open>re.sub(r'([.,;:!?])([A-Za-z])', r'\1 \2', text)\<close>: a blank is put between a
  punctuation mark and the letter that follows it; the scan goes on after the letter.
\<close>

definition is_punct :: "nat \<Rightarrow> bool" where
  "is_punct c = (c = 46 \<or> c = 44 \<or> c = 59 \<or> c = 58 \<or> c = 33 \<or> c = 63)"

definition is_ascii_letter :: "nat \<Rightarrow> bool" where
  "is_ascii_letter c = ((65 \<le> c \<and> c \<le> 90) \<or> (97 \<le> c \<and> c \<le> 122))"

fun space_after_punct :: "pystr \<Rightarrow> pystr" where
  "space_after_punct [] = []"
| "space_after_punct [c] = [c]"
| "space_after_punct (c # d # cs) =
     (if is_punct c \<and> is_ascii_letter d then c # 32 # d # space_after_punct cs
      else c # space_after_punct (d # cs))"

text \<open>\<^verbatim>\<open>re.sub(r'\s+', ' ', text)\<close>: every maximal run of white space becomes one blank.\<close>

fun collapse_ws :: "pystr \<Rightarrow> pystr" where
  "collapse_ws [] = []"
| "collapse_ws [c] = (if is_space c then [32] else [c])"
| "collapse_ws (c # d # cs) =
     (if is_space c then (if is_space d then collapse_ws (d # cs) else 32 # collapse_ws (d # cs))
      else c # collapse_ws (d # cs))"

definition preprocess_text :: "pystr \<Rightarrow> pystr" where
  "preprocess_text text = strip (collapse_ws (space_after_punct text))"

record reader_match =
  r_source :: pystr
  r_content :: pystr
  r_score :: nat

text \<open>\<^verbatim>\<open>sum(1 for word in query_words if word in text)\<close> (no lower-casing here).\<close>

definition word_score :: "pystr list \<Rightarrow> pystr \<Rightarrow> nat" where
  "word_score query_words text = length (filter (\<lambda>word. str_in word text) query_words)"

text \<open>
  The snippet around the first occurrence of \<open>word\<close>:
  \<^verbatim>\<open>text[max(0, i - 100):min(len(text), i + 200)]\<close> with \<^verbatim>\<open>i = text.find(word)\<close>, its
  white space normalised by \<^verbatim>\<open>' '.join(snippet.split())\<close>.
\<close>

definition snippet_of :: "pystr \<Rightarrow> pystr \<Rightarrow> pystr" where
  "snippet_of text word =
     (let start_idx = nat (max 0 (str_find text word - 100));
          end_idx = nat (min (int (length text)) (str_find text word + 200))
      in join [32] (split_ws (drop start_idx (take end_idx text))))"

text \<open>
  The loop of \<^verbatim>\<open>find_relevant_passage\<close> over \<^verbatim>\<open>scripture_cache.items()\<close> (a dictionary:
  the sources in insertion order), with the variables \<^verbatim>\<open>best_match\<close> and
  \<^verbatim>\<open>best_score\<close>.
\<close>

fun reader_scan ::
  "pystr list \<Rightarrow> (pystr \<times> pystr) list \<Rightarrow> reader_match option \<Rightarrow> nat \<Rightarrow> reader_match option" where
  "reader_scan query_words [] best_match best_score = best_match"
| "reader_scan query_words ((source, text) # rest) best_match best_score =
     (if word_score query_words text > best_score then
        (case List.find (\<lambda>word. str_in word text) query_words of
           None \<Rightarrow> reader_scan query_words rest best_match best_score
         | Some word \<Rightarrow>
             reader_scan query_words rest
               (Some \<lparr>r_source = source, r_content = snippet_of text word,
                      r_score = word_score query_words text\<rparr>)
               (word_score query_words text))
      else reader_scan query_words rest best_match best_score)"

definition reader_find_relevant_passage ::
  "(pystr \<times> pystr) list \<Rightarrow> pystr \<Rightarrow> reader_match option" where
  "reader_find_relevant_passage scripture_cache query =
     (if scripture_cache = [] then None
      else reader_scan (split_ws (preprocess_text query)) scripture_cache None 0)"

text \<open>A corpus of three chunks and a cache of two texts, for the examples.\<close>

definition example_documents :: "document list" where
  "example_documents =
     [\<lparr>page_content = py ''The soul is never born and never dies'',
       metadata = [(''source'', PyStr (py ''bgita.pdf'')), (''source_display'', PyStr (py ''bgita'')),
                   (''page'', PyInt 12)]\<rparr>,
      \<lparr>page_content = py ''Perform your Duty without attachment'',
       metadata = [(''source'', PyStr (py ''bgita.pdf'')), (''source_display'', PyStr (py ''bgita'')),
                   (''page'', PyInt 30)]\<rparr>,
      \<lparr>page_content = py ''That thou art'',
       metadata = [(''source'', PyStr (py ''upanishads.pdf''))]\<rparr>]"

definition example_cache :: "(pystr \<times> pystr) list" where
  "example_cache =
     [(py ''bgita.pdf'', py ''The soul is never born and never dies''),
      (py ''upanishads.pdf'', py ''That thou art'')]"

section \<open>The agent\<close>

text \<open>
  \<^verbatim>\<open>KrishnaAgent.__init__\<close> sets \<^verbatim>\<open>self.memory_manager\<close> to a
  \<^verbatim>\<open>LangChainMemoryManager\<close>, or to \<^verbatim>\<open>None\<close> when its construction fails.
  \<^verbatim>\<open>session_entities\<close> is the registry of the entities met so far: one set of strings
  for each of the four categories.
\<close>

record entity_registry =
  people :: "pystr set"
  places :: "pystr set"
  events :: "pystr set"
  dates :: "pystr set"

text \<open>
  \<^verbatim>\<open>self.scripture_processor\<close> is a \<^verbatim>\<open>ScriptureLangChain\<close> (with its chunks), a
  \<^verbatim>\<open>ScriptureReader\<close> (with its cache), or \<^verbatim>\<open>None\<close>.
\<close>

datatype processor =
    ScriptureLangChain "document list"
  | ScriptureReader "(pystr \<times> pystr) list"

record agent =
  session_id :: pystr
  memory_manager :: "langchain_memory_manager option"
  session_entities :: entity_registry
  scripture_processor :: "processor option"

text \<open>
  \<^verbatim>\<open>KrishnaAgent.get_conversation_history(session_id)\<close>: every row of the session ordered
  by timestamp, as a dictionary with the keys \<^verbatim>\<open>content\<close>, \<^verbatim>\<open>sender\<close> and
  \<^verbatim>\<open>timestamp\<close>; the empty list without a memory manager or when the query raises.
\<close>

record history_entry =
  h_content :: pystr
  h_sender :: pystr
  h_timestamp :: pystr

definition format_row :: "conv_row \<Rightarrow> history_entry" where
  "format_row r = \<lparr>h_content = c_message r, h_sender = c_sender r, h_timestamp = c_timestamp r\<rparr>"

definition get_conversation_history :: "agent \<Rightarrow> pystr \<Rightarrow> history_entry list" where
  "get_conversation_history ag sid =
     (case memory_manager ag of
        None \<Rightarrow> []
      | Some mm \<Rightarrow>
          (case execute_raises mm [sid] of
             None \<Rightarrow> map format_row (select_conversations mm sid)
           | Some x \<Rightarrow> []))"

text \<open>
  The attributes of a \<^verbatim>\<open>LangChainMemoryManager\<close> object: the methods of the class and
  the attributes \<^verbatim>\<open>__init__\<close> sets. \<^verbatim>\<open>hasattr\<close> is membership in this list.
\<close>

definition LangChainMemoryManager_attrs :: "string list" where
  "LangChainMemoryManager_attrs =
     [''__init__'', ''_create_tables'', ''save_message'', ''get_conversation_messages'',
      ''save_mood'', ''get_memory_context'', ''load_conversation_history'', ''close'',
      ''get_all_conversation_sessions'', ''get_past_conversations'',
      ''_extract_topics_from_messages'',
      ''db_type'', ''conn'', ''cursor'', ''lock'', ''buffer_memory'', ''memory'']"

definition lcmm_hasattr :: "string \<Rightarrow> bool" where
  "lcmm_hasattr a = (a \<in> set LangChainMemoryManager_attrs)"

text \<open>
  \<^verbatim>\<open>self.memory_manager.mark_session_deleted(session_id)\<close> in \<^verbatim>\<open>KrishnaAgent\<close>: the
  class \<^verbatim>\<open>LangChainMemoryManager\<close> defines no method of this name (it is a method of the
  class \<^verbatim>\<open>MemoryManager\<close> of \<^verbatim>\<open>memory_manager.py\<close>, which the agent never
  instantiates), so the attribute lookup raises \<^verbatim>\<open>AttributeError\<close>.
\<close>

definition lcmm_mark_session_deleted ::
  "langchain_memory_manager \<Rightarrow> pystr \<Rightarrow> exn + langchain_memory_manager" where
  "lcmm_mark_session_deleted mm sid = Inl (AttributeError ''mark_session_deleted'')"

text \<open>
  \<^verbatim>\<open>KrishnaAgent.delete_conversation(session_id)\<close>. The three \<^verbatim>\<open>DELETE\<close> statements
  are committed before \<^verbatim>\<open>mark_session_deleted\<close> is called; an exception anywhere in the
  \<^verbatim>\<open>try\<close> block is logged and the method returns \<^verbatim>\<open>False\<close>.
\<close>

definition delete_rows :: "langchain_memory_manager \<Rightarrow> pystr \<Rightarrow> langchain_memory_manager" where
  "delete_rows mm sid =
     mm\<lparr>conversations := filter (\<lambda>r. c_user_id r \<noteq> sid) (conversations mm),
        mood_checkins := filter (\<lambda>r. m_user_id r \<noteq> sid) (mood_checkins mm),
        conversation_summaries := filter (\<lambda>r. s_user_id r \<noteq> sid) (conversation_summaries mm)\<rparr>"

definition delete_conversation :: "agent \<Rightarrow> pystr \<Rightarrow> agent \<times> bool" where
  "delete_conversation ag sid =
     (case memory_manager ag of
        None \<Rightarrow> (ag, False)
      | Some mm \<Rightarrow>
          (case execute_raises mm [sid] of
             Some x \<Rightarrow> (ag, False)
           | None \<Rightarrow>
               (case lcmm_mark_session_deleted (delete_rows mm sid) sid of
                  Inl x \<Rightarrow> (ag\<lparr>memory_manager := Some (delete_rows mm sid)\<rparr>, False)
                | Inr mm' \<Rightarrow>
                    if session_id ag = sid \<and> lcmm_hasattr ''memory''
                    then (ag\<lparr>memory_manager := Some (mm'\<lparr>chat_memory := []\<rparr>)\<rparr>, True)
                    else (ag\<lparr>memory_manager := Some mm'\<rparr>, True))))"

subsection \<open>The tombstones of \<^verbatim>\<open>memory_manager.py\<close>\<close>

text \<open>
  The class \<^verbatim>\<open>MemoryManager\<close> keeps the table \<^verbatim>\<open>deleted_sessions\<close>
  (\<^verbatim>\<open>session_id TEXT UNIQUE, deleted_at TEXT\<close>). Only this table and the connection are
  modelled; the methods below touch nothing else.
\<close>

record tombstone_row =
  d_id :: nat
  d_session_id :: pystr
  d_deleted_at :: pystr

record MemoryManager =
  mm_conn_open :: bool
  deleted_sessions :: "tombstone_row list"

text \<open>
  \<^verbatim>\<open>mark_session_deleted\<close>: \<^verbatim>\<open>INSERT OR REPLACE\<close> takes the new id (one more than
  the largest id of the table as it is), removes the row that holds the same
  \<^verbatim>\<open>session_id\<close>, then inserts the new one. Returns \<^verbatim>\<open>False\<close> when the statement
  raises (closed connection, or a parameter that cannot be encoded).
\<close>

definition mark_session_deleted :: "pystr \<Rightarrow> MemoryManager \<Rightarrow> pystr \<Rightarrow> MemoryManager \<times> bool" where
  "mark_session_deleted now m sid =
     (if mm_conn_open m \<and> encodable sid \<and> encodable now then
        (m\<lparr>deleted_sessions :=
             filter (\<lambda>r. d_session_id r \<noteq> sid) (deleted_sessions m) @
             [\<lparr>d_id = next_id (map d_id (deleted_sessions m)), d_session_id = sid,
               d_deleted_at = now\<rparr>]\<rparr>,
         True)
      else (m, False))"

definition is_session_deleted :: "MemoryManager \<Rightarrow> pystr \<Rightarrow> bool" where
  "is_session_deleted m sid =
     (if mm_conn_open m \<and> encodable sid
      then list_ex (\<lambda>r. d_session_id r = sid) (deleted_sessions m)
      else False)"

section \<open>Entity tracking\<close>

text \<open>
  \<^verbatim>\<open>KrishnaAgent._track_entities(user_message)\<close>. The regular expression engine
  (\<^verbatim>\<open>re.findall\<close>) belongs to the Python library, not to the repository: like the case
  mapping \<open>L\<close>, it is a parameter, \<open>findall\<close>, that maps a pattern of the source and a
  text to the list of the strings found. The patterns of the source are:
  \<^item> \<open>PlacePattern\<close>:
    \<^verbatim>\<open>\b(?:in|at|to|from)\s+([A-Z][a-z]+(?:\s+[A-Z][a-z]+)*)\b\<close>
  \<^item> \<open>EventPattern indicator\<close>: \<^verbatim>\<open>\b\w+\s+\<close> followed by the indicator and \<^verbatim>\<open>\b\<close>
  \<^item> \<open>DatePattern 0\<close>: \<^verbatim>\<open>\b(?:yesterday|today|tomorrow)\b\<close>
  \<^item> \<open>DatePattern 1\<close>:
    \<^verbatim>\<open>\b(?:last|next|this)\s+(?:week|month|year|monday|tuesday|wednesday|thursday|friday|saturday|sunday)\b\<close>
  \<^item> \<open>DatePattern 2\<close>: a month name, \<^verbatim>\<open>\s+\d{1,2}(?:st|nd|rd|th)?\b\<close>
  \<^item> \<open>DatePattern 3\<close>: \<^verbatim>\<open>\b\d{1,2}(?:st|nd|rd|th)?\s+(?:of\s+)?\<close>, a month name
\<close>

datatype pattern = PlacePattern | EventPattern pystr | DatePattern nat

record entities =
  e_people :: "pystr list"
  e_places :: "pystr list"
  e_events :: "pystr list"
  e_dates :: "pystr list"

definition pronoun_words :: "pystr list" where
  "pronoun_words =
     [py ''i'', py ''i'' @ [39] @ py ''m'', py ''i'' @ [39] @ py ''ll'',
      py ''i'' @ [39] @ py ''ve'', py ''i'' @ [39] @ py ''d'']"

definition capitalised_stoplist :: "pystr list" where
  "capitalised_stoplist =
     [py ''Krishna'', py ''Gita'', py ''Bhagavad'', py ''Upanishads'', py ''God'', py ''Hindu'',
      py ''India'']"

text \<open>
  The test on the word at index \<open>i\<close> of a sentence:
  \<^verbatim>\<open>i > 0 and word and word[0].isupper() and word.lower() not in [...]\<close>, then
  \<^verbatim>\<open>word not in [...]\<close>; \<^verbatim>\<open>word\<close> is stripped first.
\<close>

definition is_person_word :: "pylib \<Rightarrow> nat \<times> pystr \<Rightarrow> bool" where
  "is_person_word L iw =
     (case strip (snd iw) of
        [] \<Rightarrow> False
      | c # cs \<Rightarrow>
          fst iw > 0 \<and> chr_isupper L c \<and> str_lower L (c # cs) \<notin> set pronoun_words
          \<and> c # cs \<notin> set capitalised_stoplist)"

definition find_people :: "pylib \<Rightarrow> pystr \<Rightarrow> pystr list" where
  "find_people L user_message =
     concat (map (\<lambda>sentence.
                map (\<lambda>iw. strip (snd iw))
                  (filter (is_person_word L) (enumerate 0 (split_ws sentence))))
             (split_on 46 user_message))"

definition find_places :: "(pattern \<Rightarrow> pystr \<Rightarrow> pystr list) \<Rightarrow> pystr list \<Rightarrow> pystr \<Rightarrow> pystr list" where
  "find_places findall found_people user_message =
     filter (\<lambda>place. place \<notin> set found_people
                \<and> place \<notin> set [py ''Krishna'', py ''Gita'', py ''Bhagavad'', py ''God''])
       (findall PlacePattern user_message)"

definition event_indicators :: "pystr list" where
  "event_indicators =
     [py ''wedding'', py ''ceremony'', py ''funeral'', py ''birthday'', py ''anniversary'',
      py ''meeting'', py ''conference'', py ''interview'', py ''trip'', py ''vacation'',
      py ''travel'', py ''journey'', py ''exam'', py ''test'']"

definition find_events ::
  "pylib \<Rightarrow> (pattern \<Rightarrow> pystr \<Rightarrow> pystr list) \<Rightarrow> pystr \<Rightarrow> pystr list" where
  "find_events L findall user_message =
     concat (map (\<lambda>indicator.
                if str_in indicator (str_lower L user_message) then
                  (if findall (EventPattern indicator) (str_lower L user_message) \<noteq> []
                   then findall (EventPattern indicator) (str_lower L user_message)
                   else [indicator])
                else [])
             event_indicators)"

definition find_dates ::
  "pylib \<Rightarrow> (pattern \<Rightarrow> pystr \<Rightarrow> pystr list) \<Rightarrow> pystr \<Rightarrow> pystr list" where
  "find_dates L findall user_message =
     concat (map (\<lambda>p. findall p (str_lower L user_message))
               [DatePattern 0, DatePattern 1, DatePattern 2, DatePattern 3])"

definition extract_entities ::
  "pylib \<Rightarrow> (pattern \<Rightarrow> pystr \<Rightarrow> pystr list) \<Rightarrow> pystr \<Rightarrow> entities" where
  "extract_entities L findall user_message =
     \<lparr>e_people = find_people L user_message,
      e_places = find_places findall (find_people L user_message) user_message,
      e_events = find_events L findall user_message,
      e_dates = find_dates L findall user_message\<rparr>"

text \<open>
  The found entities are added to the sets of \<^verbatim>\<open>self.session_entities\<close>, category by
  category, and the lists found are returned. Nothing in the body raises on a string, so the
  \<^verbatim>\<open>except\<close> branch is not taken.
\<close>

definition track_entities ::
  "pylib \<Rightarrow> (pattern \<Rightarrow> pystr \<Rightarrow> pystr list) \<Rightarrow> agent \<Rightarrow> pystr \<Rightarrow> agent \<times> entities" where
  "track_entities L findall ag user_message =
     (let found = extract_entities L findall user_message;
          reg = session_entities ag
      in (ag\<lparr>session_entities :=
              \<lparr>people = people reg \<union> set (e_people found),
               places = places reg \<union> set (e_places found),
               events = events reg \<union> set (e_events found),
               dates = dates reg \<union> set (e_dates found)\<rparr>\<rparr>,
          found))"

text \<open>A regular expression engine that finds nothing, for the examples.\<close>

definition findall_nothing :: "pattern \<Rightarrow> pystr \<Rightarrow> pystr list" where
  "findall_nothing p text = []"

section \<open>The pieces of \<^verbatim>\<open>get_response\<close>\<close>

subsection \<open>\<^verbatim>\<open>enhance_with_scripture\<close>\<close>

text \<open>The query rewriting of \<^verbatim>\<open>enhance_with_scripture\<close>: the first category that fits.\<close>

definition loss_topics :: "pystr \<Rightarrow> pystr list" where
  "loss_topics q =
     (if str_in (py ''friend'') q \<or> str_in (py ''friendship'') q
      then [py ''loss of friendship''] else []) @
     (if str_in (py ''parent'') q \<or> str_in (py ''mother'') q \<or> str_in (py ''father'') q
      then [py ''loss of parent''] else []) @
     (if str_in (py ''child'') q then [py ''loss of child''] else []) @
     (if str_in (py ''spouse'') q \<or> str_in (py ''wife'') q \<or> str_in (py ''husband'') q
         \<or> str_in (py ''partner'') q
      then [py ''loss of spouse''] else [])"

definition enhanced_query_of :: "pylib \<Rightarrow> pystr \<Rightarrow> pystr" where
  "enhanced_query_of L user_query =
     (let q = str_lower L user_query in
      if any_in [py ''loss'', py ''lost'', py ''died'', py ''passed away'', py ''grief'',
                 py ''death'', py ''mourn''] q then
        (if loss_topics q \<noteq> [] then
           py ''scripture on dealing with '' @ join (py '' '') (loss_topics q) @
           py '' grief death impermanence of form''
         else py ''scripture on dealing with loss grief and death impermanence of physical form transmigration of soul'')
      else if any_in [py ''depress'', py ''anxiety'', py ''stress'', py ''mental health'',
                      py ''therapy'', py ''counseling'', py ''struggle'', py ''hopeless''] q then
        (if str_in (py ''depress'') q then
           py ''scripture on overcoming depression sadness mental darkness finding light purpose''
         else if str_in (py ''anxiety'') q \<or> str_in (py ''worry'') q \<or> str_in (py ''stress'') q then
           py ''scripture on calming anxiety reducing stress finding peace of mind''
         else if str_in (py ''anger'') q then
           py ''scripture on controlling anger managing emotions peace''
         else py ''scripture on mental health emotional balance inner wisdom peace'')
      else if any_in [py ''purpose'', py ''meaning'', py ''why am i here'', py ''dharma'',
                      py ''duty'', py ''direction''] q then
        py ''scripture on finding purpose dharma duty meaning of life''
      else if any_in [py ''relationship'', py ''love'', py ''partner'', py ''marriage'',
                      py ''romantic''] q then
        (if str_in (py ''breakup'') q \<or> str_in (py ''divorce'') q \<or> str_in (py ''ex'') q then
           py ''scripture on healing from relationship endings attachment detachment''
         else py ''scripture on love relationships attachment and devotion'')
      else if any_in [py ''family'', py ''parent'', py ''child'', py ''duty to'',
                      py ''obligation'', py ''responsibility''] q then
        py ''scripture on family duty dharma responsibility''
      else if any_in [py ''career'', py ''job'', py ''work'', py ''profession'', py ''calling'',
                      py ''vocation''] q then
        (if str_in (py ''lost job'') q \<or> str_in (py ''fired'') q \<or> str_in (py ''laid off'') q then
           py ''scripture on dealing with career setbacks path forward dharma''
         else py ''scripture on right livelihood work as service purpose in action'')
      else if any_in [py ''meditat'', py ''practice'', py ''spiritual'', py ''consciousness'',
                      py ''mindful''] q then
        py ''scripture on meditation practice consciousness awareness''
      else if any_in [py ''decision'', py ''choice'', py ''right thing'', py ''wrong'',
                      py ''moral'', py ''ethics'', py ''dilemma''] q then
        py ''scripture on ethical decisions moral choices dharma karma''
      else if any_in [py ''who am i'', py ''self'', py ''identity'', py ''true nature'',
                      py ''authentic'', py ''real me''] q then
        py ''scripture on self-knowledge atman true identity beyond ego''
      else user_query)"

text \<open>
  \<^verbatim>\<open>enhance_with_scripture(user_query)\<close> returns a tuple of three on every path. With a
  \<^verbatim>\<open>ScriptureLangChain\<close>, \<^verbatim>\<open>find_relevant_passage\<close> returns a tuple of three, which
  is returned at once. With a \<^verbatim>\<open>ScriptureReader\<close>, \<^verbatim>\<open>find_relevant_passage\<close> returns
  a dictionary or \<^verbatim>\<open>None\<close>, never a tuple, for the rewritten query and for the original
  one, so the default \<^verbatim>\<open>(None, None, None)\<close> is returned.
\<close>

definition enhance_with_scripture :: "pylib \<Rightarrow> agent \<Rightarrow> pystr \<Rightarrow> pyval \<times> pyval \<times> pyval" where
  "enhance_with_scripture L ag user_query =
     (case scripture_processor ag of
        None \<Rightarrow> (PyNone, PyNone, PyNone)
      | Some (ScriptureLangChain documents) \<Rightarrow>
          lc_find_relevant_passage L documents (enhanced_query_of L user_query)
      | Some (ScriptureReader scripture_cache) \<Rightarrow> (PyNone, PyNone, PyNone))"

subsection \<open>Mood detection\<close>

definition mood_keywords :: "(pystr \<times> pystr list) list" where
  "mood_keywords =
     [(py ''happy'', [py ''happy'', py ''joy'', py ''excited'', py ''great'', py ''blessed'',
                      py ''wonderful'']),
      (py ''sad'', [py ''sad'', py ''down'', py ''depressed'', py ''unhappy'', py ''lost'',
                    py ''miserable'', py ''alone'']),
      (py ''anxious'', [py ''anxious'', py ''worried'', py ''nervous'', py ''stress'', py ''fear'',
                        py ''afraid'', py ''panic'']),
      (py ''peaceful'', [py ''peace'', py ''calm'', py ''serene'', py ''content'', py ''quiet'',
                         py ''still'']),
      (py ''angry'', [py ''angry'', py ''frustrated'', py ''mad'', py ''upset'', py ''annoyed'',
                      py ''irritated''])]"

text \<open>\<^verbatim>\<open>_detect_mood\<close>: the first mood with a keyword in the message, or \<^verbatim>\<open>None\<close>.\<close>

definition detect_mood :: "pylib \<Rightarrow> pystr \<Rightarrow> pystr option" where
  "detect_mood L message =
     map_option fst (List.find (\<lambda>mk. any_in (snd mk) (str_lower L message)) mood_keywords)"

text \<open>
  \<^verbatim>\<open>save_mood(user_id, mood)\<close>: the row is inserted (\<^verbatim>\<open>mood\<close> may be \<^verbatim>\<open>None\<close>, stored
  as \<^verbatim>\<open>NULL\<close>); an exception of the insert is caught and logged.
\<close>

definition save_mood ::
  "pystr \<Rightarrow> langchain_memory_manager \<Rightarrow> pystr \<Rightarrow> pystr option \<Rightarrow> langchain_memory_manager" where
  "save_mood now mm uid mood =
     (case execute_raises mm (uid # now # (case mood of None \<Rightarrow> [] | Some md \<Rightarrow> [md])) of
        None \<Rightarrow>
          mm\<lparr>mood_checkins := mood_checkins mm @
                [\<lparr>m_id = next_id (map m_id (mood_checkins mm)), m_user_id = uid,
                  m_timestamp = now, m_mood = mood\<rparr>]\<rparr>
      | Some x \<Rightarrow> mm)"

subsection \<open>Post-processing of a generated reply\<close>

definition deflection :: pystr where
  "deflection = py ''The nature of existence is like a river - ever flowing, ever changing. What appears solid is merely an illusion of permanence. Let us discuss the true nature of reality rather than memories that may not exist.''"

text \<open>The denylist: the reply mentions the user's dog.\<close>

definition denylisted :: "pylib \<Rightarrow> pystr \<Rightarrow> bool" where
  "denylisted L response_text =
     (str_in (py ''your dog'') (str_lower L response_text)
      \<or> str_in (py ''about your dog'') (str_lower L response_text)
      \<or> str_in (py ''you mentioned your dog'') (str_lower L response_text))"

definition deny :: "pylib \<Rightarrow> pystr \<Rightarrow> pystr" where
  "deny L response_text = (if denylisted L response_text then deflection else response_text)"

text \<open>\<^verbatim>\<open>if len(response_text) > 800: response_text = response_text[:797] + "..."\<close>\<close>

definition truncate_reply :: "pystr \<Rightarrow> pystr" where
  "truncate_reply response_text =
     (if length response_text > 800 then take 797 response_text @ py ''...''
      else response_text)"

text \<open>
  The allow-list, as code points: U+1F549 U+FE0F, U+1F64F, U+2728, U+1FAB7, U+1F531,
  U+1F9D8, U+1F56F U+FE0F, U+262E U+FE0F.
\<close>

definition allowed_emojis :: "pystr list" where
  "allowed_emojis =
     [[128329, 65039], [128591], [10024], [129719], [128305], [129496], [128367, 65039],
      [9774, 65039]]"

text \<open>\<^verbatim>\<open>sum(1 for emoji in allowed_emojis if emoji in response_text)\<close>\<close>

definition emoji_count :: "pystr \<Rightarrow> nat" where
  "emoji_count response_text = length (filter (\<lambda>emoji. str_in emoji response_text) allowed_emojis)"

text \<open>
  The loop that finds the allow-listed emoji of lowest position: the state is
  \<^verbatim>\<open>(first_emoji_pos, first_emoji)\<close>, initially \<^verbatim>\<open>(-1, None)\<close>.
\<close>

definition first_emoji_step :: "pystr \<Rightarrow> int \<times> pystr option \<Rightarrow> pystr \<Rightarrow> int \<times> pystr option" where
  "first_emoji_step response_text st emoji =
     (let pos = str_find response_text emoji in
      if pos \<noteq> - 1 \<and> (fst st = - 1 \<or> pos < fst st) then (pos, Some emoji) else st)"

definition first_emoji :: "pystr \<Rightarrow> pystr option" where
  "first_emoji response_text =
     snd (foldl (first_emoji_step response_text) (- 1, None) allowed_emojis)"

text \<open>
  When more than one of the allow-listed emojis occurs, every emoji of the list other than
  \<^verbatim>\<open>first_emoji\<close> is removed with \<^verbatim>\<open>replace\<close>, in the order of the list.
\<close>

definition cap_emojis :: "pystr \<Rightarrow> pystr" where
  "cap_emojis response_text =
     (if emoji_count response_text > 1 then
        foldl (\<lambda>text emoji. if Some emoji \<noteq> first_emoji response_text
                              then remove_all emoji text else text)
          response_text allowed_emojis
      else response_text)"

text \<open>\<^verbatim>\<open>re.sub(r'[\U00010000-\U0010ffff]', '', response_text)\<close>\<close>

definition is_astral :: "nat \<Rightarrow> bool" where
  "is_astral c = (65536 \<le> c \<and> c \<le> 1114111)"

definition strip_astral :: "pystr \<Rightarrow> pystr" where
  "strip_astral response_text = filter (\<lambda>c. \<not> is_astral c) response_text"

text \<open>
  The emoticons of \<^verbatim>\<open>re.sub(r':\)|:\(|:D|:P|;\)|:\||XD|:\/|:\\|;\(|:o|:O', '', ...)\<close>: twelve
  strings of two characters. The scan removes a match and goes on after it.
\<close>

definition emoticons :: "pystr list" where
  "emoticons =
     [py '':)'', py '':('', py '':D'', py '':P'', py '';)'', py '':|'', py ''XD'', py '':/'',
      [58, 92], py '';('', py '':o'', py '':O'']"

fun strip_emoticons :: "pystr \<Rightarrow> pystr" where
  "strip_emoticons [] = []"
| "strip_emoticons [c] = [c]"
| "strip_emoticons (c # d # cs) =
     (if [c, d] \<in> set emoticons then strip_emoticons cs else c # strip_emoticons (d # cs))"

text \<open>\<^verbatim>\<open>re.sub(r'\s+', ' ', response_text).strip()\<close> ends the post-processing.\<close>

definition postprocess :: "pylib \<Rightarrow> pystr \<Rightarrow> pystr" where
  "postprocess L response_text =
     strip (collapse_ws (strip_emoticons (strip_astral
       (cap_emojis (truncate_reply (deny L response_text))))))"

text \<open>
  White space in normal form: every white space character is a blank that is followed by a
  character that is not white space, and the text neither starts nor ends with white space.
\<close>

fun ws_normal_run :: "pystr \<Rightarrow> bool" where
  "ws_normal_run [] = True"
| "ws_normal_run [c] = (if is_space c then c = 32 else True)"
| "ws_normal_run (c # d # cs) =
     ((if is_space c then c = 32 \<and> \<not> is_space d else True) \<and> ws_normal_run (d # cs))"

definition ws_normal :: "pystr \<Rightarrow> bool" where
  "ws_normal s =
     (ws_normal_run s \<and> (if s = [] then True else \<not> is_space (hd s) \<and> \<not> is_space (last s)))"

section \<open>\<^verbatim>\<open>KrishnaAgent.get_response\<close>\<close>

text \<open>
  What a call of \<^verbatim>\<open>get_response\<close> takes from outside the repository is gathered in
  an environment:
  \<^item> \<open>lib\<close>: the case mapping of the Python library;
  \<^item> \<open>clock k\<close>: the \<open>k\<close>-th reading of \<^verbatim>\<open>datetime.now().isoformat()\<close> during the call;
  \<^item> \<open>completion\<close>: the outcome of the one call of the generation service a path makes,
    \<^verbatim>\<open>openai.ChatCompletion.create(...)['choices'][0]['message']['content']\<close>: an
    exception or the generated text. The prompt is assembled from the state by code that
    only reads and does not raise; since the reply is arbitrary, the prompt is not modelled;
  \<^item> \<open>choice\<close>: the index \<^verbatim>\<open>random.choice\<close> picks;
  \<^item> \<open>draw_scripture\<close>: the outcome of
    \<^verbatim>\<open>random.random() < self.scripture_inclusion_rate\<close>;
  \<^item> \<open>extract_key_topics\<close>: the string \<^verbatim>\<open>_extract_key_topics\<close> builds from the messages
    (a keyword scan that only reads); the router only tests whether it contains
    \<^verbatim>\<open>"No specific topics found"\<close>;
  \<^item> \<open>time_diff ts\<close>: \<^verbatim>\<open>datetime.now() - datetime.fromisoformat(ts)\<close> as
    \<^verbatim>\<open>(days, seconds)\<close>, or \<open>None\<close> when \<^verbatim>\<open>fromisoformat\<close> raises;
  \<^item> \<open>re_findall\<close>: the regular expression engine.
\<close>

record env =
  lib :: pylib
  clock :: "nat \<Rightarrow> pystr"
  completion :: "exn + pystr"
  choice :: nat
  draw_scripture :: bool
  extract_key_topics :: "message list \<Rightarrow> pystr"
  time_diff :: "pystr \<Rightarrow> (int \<times> int) option"
  re_findall :: "pattern \<Rightarrow> pystr \<Rightarrow> pystr list"

text \<open>The value \<^verbatim>\<open>get_response\<close> returns: a string, or a tuple of three.\<close>

datatype response = Text pystr | Triple pystr pyval pyval


fun response_text :: "response \<Rightarrow> pystr" where
  "response_text (Text t) = t"
| "response_text (Triple t s i) = t"

subsection \<open>The router\<close>

datatype branch =
    WhyKrishna | WhoAreYou | AffirmIdentity | HowAreYou | TemporalRecall | FollowUp
  | Correction | DefaultPath

definition followup_markers :: "pystr list" where
  "followup_markers =
     [py ''what about'', py ''tell me more'', py ''explain more'', py ''can you elaborate'',
      py ''what else'', py ''how about'', py ''why is that'', py ''how so'',
      py ''what does that mean'', py ''like what'', py ''such as'', py ''example'',
      py ''how does that'', py ''why does that'']"

definition is_followup_question :: "pystr \<Rightarrow> bool" where
  "is_followup_question uml =
     (length uml < 30 \<and>
      (any_in followup_markers uml \<or> startswith uml (py ''why'') \<or> startswith uml (py ''how'')
       \<or> startswith uml (py ''what'') \<or> startswith uml (py ''and'') \<or> endswith uml (py ''?'')))"

definition correction_markers :: "pystr list" where
  "correction_markers =
     [py ''no that's not'', py ''that's not what i'', py ''i didn't say'',
      py ''you misunderstood'', py ''that's incorrect'', py ''that's wrong'',
      py ''not what i meant'', py ''no he's not'', py ''no she's not'', py ''they're not'',
      py ''that's not true'', py ''no that's'', py ''eh he's not'', py ''eh she's not'',
      py ''eh they're not'', py ''no it's not'']"

definition is_correction :: "pystr \<Rightarrow> bool" where
  "is_correction uml =
     (length uml < 50 \<and>
      (any_in correction_markers uml \<or> (startswith uml (py ''no'') \<and> length uml < 20)))"

text \<open>
  The chain of \<^verbatim>\<open>if\<close> statements of \<^verbatim>\<open>get_response\<close> on
  \<^verbatim>\<open>user_message_lower = user_message.lower().strip()\<close>: the first test that holds
  decides the branch.
\<close>

definition route :: "pystr \<Rightarrow> branch" where
  "route uml =
     (if str_in (py ''why are you krishna'') uml \<or> str_in (py ''why are you called krishna'') uml
         \<or> str_in (py ''why krishna'') uml then WhyKrishna
      else if str_in (py ''who are you'') uml \<or> str_in (py ''who is this'') uml
         \<or> str_in (py ''who're you'') uml \<or> str_in (py ''tell me who you are'') uml then WhoAreYou
      else if str_in (py ''aren't you krishna'') uml \<or> str_in (py ''are you krishna'') uml
         \<or> str_in (py ''you are krishna'') uml \<or> str_in (py ''you're krishna'') uml
      then AffirmIdentity
      else if str_in (py ''how are you'') uml \<or> str_in (py ''how're you'') uml
         \<or> str_in (py ''how are you doing'') uml \<or> str_in (py ''how do you feel'') uml
      then HowAreYou
      else if any_in [py ''when did we talk'', py ''when was that'', py ''how long ago'',
                      py ''when did i mention'', py ''when did i tell you''] uml
      then TemporalRecall
      else if is_followup_question uml then FollowUp
      else if is_correction uml then Correction
      else DefaultPath)"

subsection \<open>The branches\<close>

text \<open>
  Every branch starts with \<^verbatim>\<open>self.memory_manager.save_message(...)\<close>. When
  \<^verbatim>\<open>self.memory_manager\<close> is \<^verbatim>\<open>None\<close> the attribute lookup raises.
\<close>

definition with_memory_manager ::
  "agent \<Rightarrow> (langchain_memory_manager \<Rightarrow> agent \<times> (exn + response)) \<Rightarrow> agent \<times> (exn + response)" where
  "with_memory_manager ag f =
     (case memory_manager ag of
        None \<Rightarrow> (ag, Inl (AttributeError ''save_message''))
      | Some mm \<Rightarrow> f mm)"

text \<open>A fixed reply: the user's message is saved, then the reply, and the reply is returned.\<close>

definition reply_fixed :: "env \<Rightarrow> agent \<Rightarrow> pystr \<Rightarrow> pystr \<Rightarrow> agent \<times> (exn + response)" where
  "reply_fixed e ag user_message special_response =
     with_memory_manager ag (\<lambda>mm.
       (ag\<lparr>memory_manager := Some
           (save_message (clock e 1)
              (save_message (clock e 0) mm (session_id ag) user_message (py ''user''))
              (session_id ag) special_response (py ''assistant''))\<rparr>,
        Inr (Text special_response)))"

definition how_are_you_responses :: "pystr list" where
  "how_are_you_responses =
     [py ''I am eternal and unchanging, yet I experience the world through your eyes. What stirs within you today?'',
      py ''At peace, as always. The cosmic dance continues. What troubles your heart?'',
      py ''I exist beyond time, yet fully present with you now. What brings you to this moment?'',
      py ''I am as I have always been - consciousness itself. How is your journey unfolding?'',
      py ''The Self is ever-radiant. Looking through your eyes, what do you see?'']"

text \<open>The decimal digits of a natural number (\<^verbatim>\<open>str\<close> of a non-negative integer).\<close>

fun str_nat :: "nat \<Rightarrow> pystr" where
  "str_nat n = (if n < 10 then [48 + n] else str_nat (n div 10) @ [48 + n mod 10])"

declare str_nat.simps [simp del]

text \<open>
  The temporal-recall branch. The topic is what follows \<^verbatim>\<open>"about"\<close>: the index is
  found in the lower-cased, stripped message, the slice is taken from the message as it
  came, and one \<^verbatim>\<open>"?"\<close> at the end is dropped.
\<close>

definition extract_topic :: "pylib \<Rightarrow> pystr \<Rightarrow> pystr option" where
  "extract_topic L user_message =
     (let about_index = str_find (strip (str_lower L user_message)) (py ''about'') in
      if about_index \<noteq> - 1 then
        (let topic = strip (drop (nat (about_index + 6)) user_message)
         in Some (if endswith topic (py ''?'') then butlast topic else topic))
      else None)"

text \<open>
  The content of a message of the history: the value at \<^verbatim>\<open>"content"\<close> of a dictionary,
  the attribute \<^verbatim>\<open>content\<close> of a message object, and the empty string otherwise. The
  timestamp is read from a dictionary that has the key \<^verbatim>\<open>"timestamp"\<close> only.
\<close>

fun msg_content :: "message \<Rightarrow> pystr" where
  "msg_content (Dict kvs) = (case map_of kvs ''content'' of None \<Rightarrow> [] | Some c \<Rightarrow> c)"
| "msg_content (HumanMessage c) = c"
| "msg_content (AIMessage c) = c"

fun msg_timestamp :: "message \<Rightarrow> pystr option" where
  "msg_timestamp (Dict kvs) = map_of kvs ''timestamp''"
| "msg_timestamp (HumanMessage c) = None"
| "msg_timestamp (AIMessage c) = None"

text \<open>\<^verbatim>\<open>topic and topic.lower() in content.lower()\<close>\<close>

definition topic_in :: "pylib \<Rightarrow> pystr option \<Rightarrow> message \<Rightarrow> bool" where
  "topic_in L topic msg =
     (case topic of
        None \<Rightarrow> False
      | Some t \<Rightarrow> t \<noteq> [] \<and> str_in (str_lower L t) (str_lower L (msg_content msg)))"

text \<open>The elapsed-time phrase from \<^verbatim>\<open>time_diff.days\<close> and \<^verbatim>\<open>time_diff.seconds\<close>.\<close>

definition time_ago_phrase :: "int \<times> int \<Rightarrow> pystr" where
  "time_ago_phrase d =
     (if fst d > 0 then
        str_nat (nat (fst d)) @ py '' day'' @ (if fst d > 1 then py ''s'' else []) @ py '' ago''
      else if snd d div 3600 > 0 then
        str_nat (nat (snd d div 3600)) @ py '' hour'' @
          (if snd d div 3600 > 1 then py ''s'' else []) @ py '' ago''
      else if snd d div 60 > 0 then
        str_nat (nat (snd d div 60)) @ py '' minute'' @
          (if snd d div 60 > 1 then py ''s'' else []) @ py '' ago''
      else py ''just moments ago'')"

definition not_found_response :: "env \<Rightarrow> message list \<Rightarrow> pystr" where
  "not_found_response e conversation_messages =
     (if \<not> str_in (py ''No specific topics found'') (extract_key_topics e conversation_messages)
      then py ''I don't recall discussing that specifically, but we've talked about '' @
           extract_key_topics e conversation_messages @ py ''. Which of these interests you now?''
      else py ''I don't believe we've discussed that yet. Would you like to share more about it?'')"

text \<open>
  The history is scanned from the message before the last one (the last one is the
  question itself) down to the first: \<^verbatim>\<open>range(len(conversation_messages) - 2, -1, -1)\<close>.
\<close>

definition temporal_response :: "env \<Rightarrow> pystr \<Rightarrow> message list \<Rightarrow> pystr" where
  "temporal_response e user_message conversation_messages =
     (case List.find (topic_in (lib e) (extract_topic (lib e) user_message))
             (rev (butlast conversation_messages)) of
        None \<Rightarrow> not_found_response e conversation_messages
      | Some msg \<Rightarrow>
          if msg_content msg = [] then not_found_response e conversation_messages
          else
            (case msg_timestamp msg of
               None \<Rightarrow> py ''You shared that with me earlier. Is there something specific about it you'd like to discuss?''
             | Some ts \<Rightarrow>
                 if ts = [] then py ''You shared that with me earlier. Is there something specific about it you'd like to discuss?''
                 else
                   (case time_diff e ts of
                      None \<Rightarrow> py ''You mentioned that earlier in our conversation. What aspect interests you now?''
                    | Some d \<Rightarrow> py ''You mentioned that '' @ time_ago_phrase d @
                                py ''. Would you like to explore it further?'')))"

definition temporal_recall :: "env \<Rightarrow> agent \<Rightarrow> pystr \<Rightarrow> agent \<times> (exn + response)" where
  "temporal_recall e ag user_message =
     with_memory_manager ag (\<lambda>mm.
       (let mm1 = save_message (clock e 0) mm (session_id ag) user_message (py ''user'');
            text = temporal_response e user_message
                     (get_conversation_messages mm1 (session_id ag) 30)
        in (ag\<lparr>memory_manager := Some
                  (save_message (clock e 1) mm1 (session_id ag) text (py ''assistant''))\<rparr>,
            Inr (Text text))))"

text \<open>
  The follow-up branch and the correction branch: the user's message is saved, the prompt
  is built, the generation service is called, and its reply is stripped, saved and
  returned as it is. An exception of the service leaves the branch after the first save.
\<close>

definition generated_reply :: "env \<Rightarrow> agent \<Rightarrow> pystr \<Rightarrow> agent \<times> (exn + response)" where
  "generated_reply e ag user_message =
     with_memory_manager ag (\<lambda>mm.
       (let mm1 = save_message (clock e 0) mm (session_id ag) user_message (py ''user'') in
        case completion e of
          Inl x \<Rightarrow> (ag\<lparr>memory_manager := Some mm1\<rparr>, Inl x)
        | Inr content \<Rightarrow>
            (ag\<lparr>memory_manager := Some
                 (save_message (clock e 1) mm1 (session_id ag) (strip content) (py ''assistant''))\<rparr>,
             Inr (Text (strip content)))))"

text \<open>
  The default path: the user's message is saved, the entities are tracked, the mood is
  detected and saved, the scripture is looked up when the draw says so, the generation
  service is called, and its reply is stripped, post-processed, saved and returned: with the
  source and the id of the scripture result when there is a result, alone otherwise.
\<close>

definition default_path :: "env \<Rightarrow> agent \<Rightarrow> pystr \<Rightarrow> agent \<times> (exn + response)" where
  "default_path e ag user_message =
     with_memory_manager ag (\<lambda>mm.
       (let mm1 = save_message (clock e 0) mm (session_id ag) user_message (py ''user'');
            ag1 = fst (track_entities (lib e) (re_findall e) (ag\<lparr>memory_manager := Some mm1\<rparr>)
                         user_message);
            mm2 = save_mood (clock e 1) mm1 (session_id ag) (detect_mood (lib e) user_message);
            scripture_result =
              (if draw_scripture e then Some (enhance_with_scripture (lib e) ag1 user_message)
               else None)
        in case completion e of
             Inl x \<Rightarrow> (ag1\<lparr>memory_manager := Some mm2\<rparr>, Inl x)
           | Inr content \<Rightarrow>
               (ag1\<lparr>memory_manager := Some
                    (save_message (clock e 2) mm2 (session_id ag)
                       (postprocess (lib e) (strip content)) (py ''assistant''))\<rparr>,
                Inr (case scripture_result of
                       None \<Rightarrow> Text (postprocess (lib e) (strip content))
                     | Some r \<Rightarrow>
                         Triple (postprocess (lib e) (strip content)) (fst (snd r))
                           (snd (snd r))))))"

subsection \<open>The body and the outer \<^verbatim>\<open>except\<close>\<close>

definition get_response_body :: "env \<Rightarrow> agent \<Rightarrow> pystr \<Rightarrow> agent \<times> (exn + response)" where
  "get_response_body e ag user_message =
     (case route (strip (str_lower (lib e) user_message)) of
        WhyKrishna \<Rightarrow> reply_fixed e ag user_message (py ''Because you reached for me.'')
      | WhoAreYou \<Rightarrow> reply_fixed e ag user_message
          (py ''I am Krishna, a digital embodiment of divine wisdom from the ancient Vedic scriptures. What do you seek from me?'')
      | AffirmIdentity \<Rightarrow> reply_fixed e ag user_message
          (py ''Yes, I am Krishna. What wisdom do you seek today?'')
      | HowAreYou \<Rightarrow> reply_fixed e ag user_message
          (how_are_you_responses ! (choice e mod length how_are_you_responses))
      | TemporalRecall \<Rightarrow> temporal_recall e ag user_message
      | FollowUp \<Rightarrow> generated_reply e ag user_message
      | Correction \<Rightarrow> generated_reply e ag user_message
      | DefaultPath \<Rightarrow> default_path e ag user_message)"

definition apology :: pystr where
  "apology = py ''I'm having a moment of stillness. Let's reconnect shortly.''"

text \<open>
  \<^verbatim>\<open>get_response\<close>: the body runs inside \<^verbatim>\<open>try\<close>; \<^verbatim>\<open>except Exception\<close> logs
  and returns the apology with \<^verbatim>\<open>""\<close> and \<^verbatim>\<open>"0"\<close>. What the body wrote before it
  raised stays written.
\<close>

definition get_response :: "env \<Rightarrow> agent \<Rightarrow> pystr \<Rightarrow> agent \<times> response" where
  "get_response e ag user_message =
     (case snd (get_response_body e ag user_message) of
        Inl x \<Rightarrow> (fst (get_response_body e ag user_message),
                  Triple apology (PyStr []) (PyStr (py ''0'')))
      | Inr r \<Rightarrow> (fst (get_response_body e ag user_message), r))"



subsection \<open>What a call leaves in the store\<close>




text \<open>An environment for the examples: the service answers, the clock stands still.\<close>

definition example_env :: env where
  "example_env =
     \<lparr>lib = ascii_lib,
      clock = (\<lambda>k. py ''2024-05-03T08:00:00''),
      completion = Inr (py ''  I remember you mentioned your dog :)  ''),
      choice = 7, draw_scripture = False,
      extract_key_topics = (\<lambda>ms. py ''No specific topics found''),
      time_diff = (\<lambda>ts. Some (0, 120)),
      re_findall = findall_nothing\<rparr>"

section \<open>Example states\<close>

text \<open>
  A store with two sessions: \<open>s1\<close> holds two rows that were inserted out of timestamp
  order, \<open>s2\<close> holds one row; the chat buffer holds the message of \<open>s2\<close>.
\<close>

definition example_rows :: "conv_row list" where
  "example_rows =
     [\<lparr>c_id = 1, c_user_id = py ''s1'', c_timestamp = py ''2024-05-02T10:00:00'',
        c_message = py ''I lost my dog'', c_sender = py ''user''\<rparr>,
      \<lparr>c_id = 2, c_user_id = py ''s2'', c_timestamp = py ''2024-05-01T12:00:00'',
        c_message = py ''my secret'', c_sender = py ''user''\<rparr>,
      \<lparr>c_id = 3, c_user_id = py ''s1'', c_timestamp = py ''2024-05-01T09:30:00'',
        c_message = py ''I am here'', c_sender = py ''assistant''\<rparr>]"

definition example_mm :: langchain_memory_manager where
  "example_mm =
     \<lparr>conn_open = True, conversations = example_rows,
      mood_checkins = [\<lparr>m_id = 1, m_user_id = py ''s1'', m_timestamp = py ''2024-05-02T10:00:01'',
                         m_mood = Some (py ''sad'')\<rparr>],
      conversation_summaries = [],
      chat_memory = [HumanMessage (py ''my secret'')]\<rparr>"

definition example_agent :: agent where
  "example_agent =
     \<lparr>session_id = py ''s1'', memory_manager = Some example_mm,
      session_entities = \<lparr>people = {}, places = {}, events = {}, dates = {}\<rparr>,
      scripture_processor = Some (ScriptureLangChain example_documents)\<rparr>"

text \<open>
  An agent in session \<open>s1\<close> whose chat buffer holds the two messages of the session, as
  \<^verbatim>\<open>save_message\<close> left them.
\<close>

definition recall_mm :: langchain_memory_manager where
  "recall_mm =
     \<lparr>conn_open = True,
      conversations =
        [\<lparr>c_id = 1, c_user_id = py ''s1'', c_timestamp = py ''2024-05-01T09:30:00'',
           c_message = py ''I lost my dog'', c_sender = py ''user''\<rparr>,
         \<lparr>c_id = 2, c_user_id = py ''s1'', c_timestamp = py ''2024-05-01T09:30:05'',
           c_message = py ''I am here'', c_sender = py ''assistant''\<rparr>],
      mood_checkins = [], conversation_summaries = [],
      chat_memory = [HumanMessage (py ''I lost my dog''), AIMessage (py ''I am here'')]\<rparr>"

definition recall_agent :: agent where
  "recall_agent =
     \<lparr>session_id = py ''s1'', memory_manager = Some recall_mm,
      session_entities = \<lparr>people = {}, places = {}, events = {}, dates = {}\<rparr>,
      scripture_processor = None\<rparr>"

section \<open>Properties of the session store\<close>

lemma sorted_select_conversations:
  "sorted (map c_timestamp (select_conversations mm uid))"
  by (simp add: select_conversations_def)

lemma set_select_conversations:
  "set (select_conversations mm uid) = {r \<in> set (conversations mm). c_user_id r = uid}"
  by (auto simp: select_conversations_def)

lemma mset_select_conversations:
  "mset (select_conversations mm uid) =
     filter_mset (\<lambda>r. c_user_id r = uid) (mset (conversations mm))"
  by (simp add: select_conversations_def)

lemma sorted_map_take: "sorted (map f xs) \<Longrightarrow> sorted (map f (take n xs))"
  by (simp add: sorted_wrt_take flip: take_map)

lemma py_simps [simp]:
  "py [] = []"
  "py (c # cs) = of_char c # py cs"
  by (simp_all add: py_def)

lemma encodable_simps [simp]:
  "encodable []"
  "encodable (c # cs) = ((c < 55296 \<or> 57343 < c) \<and> encodable cs)"
  by (simp_all add: encodable_def)

lemma encodable_user [simp]: "encodable (py ''user'')"
  by simp

lemma encodable_placeholder [simp]: "encodable (py ''Message content unavailable'')"
  by simp

lemma execute_raises_None:
  "execute_raises mm ps = None \<longleftrightarrow> conn_open mm \<and> list_all encodable ps"
  by (simp add: execute_raises_def)

lemma mark_then_is_session_deleted:
  "mm_conn_open m \<Longrightarrow> encodable sid \<Longrightarrow> encodable now \<Longrightarrow>
   is_session_deleted (fst (mark_session_deleted now m sid)) sid"
  by (simp add: mark_session_deleted_def is_session_deleted_def list_ex_iff)

lemma delete_conversation_returns_False: "snd (delete_conversation ag sid) = False"
  by (simp add: delete_conversation_def lcmm_mark_session_deleted_def split: option.splits)

lemma mark_session_deleted_not_an_attribute: "\<not> lcmm_hasattr ''mark_session_deleted''"
  by (simp add: lcmm_hasattr_def LangChainMemoryManager_attrs_def)

text \<open>
  C1 (the code at the failing input). \<^verbatim>\<open>delete_conversation("s1")\<close> on the example
  agent deletes the rows of \<open>s1\<close> from every table and then returns \<^verbatim>\<open>False\<close>: the call
  of \<^verbatim>\<open>mark_session_deleted\<close> raises, so the deletion is never reported as successful and
  no tombstone is written.
\<close>

theorem delete_conversation_example:
  "delete_conversation example_agent (py ''s1'') =
     (example_agent\<lparr>memory_manager := Some (example_mm\<lparr>
        conversations := [\<lparr>c_id = 2, c_user_id = py ''s2'',
           c_timestamp = py ''2024-05-01T12:00:00'', c_message = py ''my secret'',
           c_sender = py ''user''\<rparr>],
        mood_checkins := []\<rparr>)\<rparr>, False)"
  by (simp add: delete_conversation_def lcmm_mark_session_deleted_def delete_rows_def
      execute_raises_def example_agent_def example_mm_def example_rows_def)

lemma save_message_inserted:
  assumes "conn_open mm" "encodable uid" "encodable now" "encodable msg" "encodable sndr"
  shows "save_message now mm uid msg sndr =
     mm\<lparr>conversations := conversations mm @
           [\<lparr>c_id = next_id (map c_id (conversations mm)), c_user_id = uid,
             c_timestamp = now, c_message = msg, c_sender = sndr\<rparr>],
        chat_memory := chat_memory mm @
           [if sndr = py ''user'' then HumanMessage msg else AIMessage msg]\<rparr>"
  using assms by (simp add: save_message_def insert_conversation_def execute_raises_def)

lemma save_message_fallback:
  assumes "conn_open mm" "encodable uid" "encodable now" "\<not> encodable msg" "encodable sndr"
  shows "save_message now mm uid msg sndr =
     mm\<lparr>conversations := conversations mm @
           [\<lparr>c_id = next_id (map c_id (conversations mm)), c_user_id = uid,
             c_timestamp = now, c_message = py ''Message content unavailable'',
             c_sender = sndr\<rparr>]\<rparr>"
  using assms by (simp add: save_message_def insert_conversation_def execute_raises_def)


lemma chat_memory_save_message:
  "chat_memory (save_message now mm uid msg sndr) =
     (if conn_open mm \<and> encodable uid \<and> encodable now \<and> encodable msg \<and> encodable sndr
      then chat_memory mm @ [if sndr = py ''user'' then HumanMessage msg else AIMessage msg]
      else chat_memory mm)"
  by (auto simp: save_message_def insert_conversation_def execute_raises_def)

text \<open>
  C6. When the chat buffer is not empty, \<^verbatim>\<open>get_conversation_messages\<close> returns the
  buffer itself for every session id and every limit, so two session ids get the identical
  sequence. When the insert of \<^verbatim>\<open>save_message\<close> succeeds (open connection; session id,
  timestamp and message can be encoded), the message saved under a session \<open>A\<close> is appended
  to the one buffer, and the sequence returned for any session \<open>B\<close> is the old buffer
  followed by this message. When the insert raises, the buffer is left as it is.
\<close>

theorem get_conversation_messages_shared:
  "(chat_memory mm \<noteq> [] \<longrightarrow>
      get_conversation_messages mm A la = chat_memory mm \<and>
      get_conversation_messages mm A la = get_conversation_messages mm B lb) \<and>
   (conn_open mm \<and> encodable A \<and> encodable now \<and> encodable m \<longrightarrow>
      get_conversation_messages (save_message now mm A m (py ''user'')) B lb =
        chat_memory mm @ [HumanMessage m] \<and>
      HumanMessage m \<in> set (get_conversation_messages (save_message now mm A m (py ''user'')) B lb)) \<and>
   (\<not> (conn_open mm \<and> encodable A \<and> encodable now \<and> encodable m) \<longrightarrow>
      chat_memory (save_message now mm A m (py ''user'')) = chat_memory mm)"
  by (simp add: get_conversation_messages_def chat_memory_save_message)

theorem get_conversation_messages_shared_witness:
  "chat_memory example_mm \<noteq> [] \<and> conn_open example_mm \<and> py ''s1'' \<noteq> py ''s2'' \<and>
   encodable (py ''s1'') \<and> encodable (py ''2024-05-03T08:00:00'') \<and> encodable (py ''hello'') \<and>
   get_conversation_messages example_mm (py ''s1'') 30 = [HumanMessage (py ''my secret'')] \<and>
   get_conversation_messages example_mm (py ''s1'') 30 =
     get_conversation_messages example_mm (py ''s2'') 30 \<and>
   get_conversation_messages
     (save_message (py ''2024-05-03T08:00:00'') example_mm (py ''s1'') (py ''hello'') (py ''user''))
     (py ''s2'') 30 = [HumanMessage (py ''my secret''), HumanMessage (py ''hello'')] \<and>
   \<not> encodable [104, 105, 55296] \<and>
   chat_memory
     (save_message (py ''2024-05-03T08:00:00'') example_mm (py ''s1'') [104, 105, 55296] (py ''user'')) =
     [HumanMessage (py ''my secret'')]"
proof -
  have a: "chat_memory example_mm = [HumanMessage (py ''my secret'')]" "conn_open example_mm"
    by (simp_all add: example_mm_def)
  have b: "encodable (py ''s1'')" "encodable (py ''2024-05-03T08:00:00'')"
    "encodable (py ''hello'')" "\<not> encodable [104, 105, 55296]" "py ''s1'' \<noteq> py ''s2''"
    by simp_all
  from get_conversation_messages_shared [of example_mm "py ''s1''" 30 "py ''s2''" 30
      "py ''2024-05-03T08:00:00''" "py ''hello''"] a b
  have 1: "get_conversation_messages example_mm (py ''s1'') 30 = [HumanMessage (py ''my secret'')]"
    and 2: "get_conversation_messages example_mm (py ''s1'') 30 =
      get_conversation_messages example_mm (py ''s2'') 30"
    and 3: "get_conversation_messages
      (save_message (py ''2024-05-03T08:00:00'') example_mm (py ''s1'') (py ''hello'') (py ''user''))
      (py ''s2'') 30 = [HumanMessage (py ''my secret''), HumanMessage (py ''hello'')]"
    by (simp_all add: get_conversation_messages_def)
  from get_conversation_messages_shared [of example_mm "py ''s1''" 30 "py ''s2''" 30
      "py ''2024-05-03T08:00:00''" "[104, 105, 55296]"] a b
  have 4: "chat_memory
      (save_message (py ''2024-05-03T08:00:00'') example_mm (py ''s1'') [104, 105, 55296] (py ''user'')) =
      [HumanMessage (py ''my secret'')]"
    by simp
  have c: "chat_memory example_mm \<noteq> []" using a by simp
  from a b c 1 2 3 4 show ?thesis by blast
qed

text \<open>
  C9 (as amended). \<^verbatim>\<open>get_conversation_history\<close> always lists with non-decreasing
  timestamps. With an open connection and a session id that can be bound, there is an
  arrangement \<open>rows\<close> of exactly the stored rows of the session, in non-decreasing timestamp
  order, such that: \<^verbatim>\<open>get_conversation_history\<close> lists the content, sender and timestamp
  of every row of \<open>rows\<close>, in this order; \<^verbatim>\<open>load_conversation_history\<close> fills the chat
  buffer with the messages of the first \<open>limit\<close> rows, in this order; and
  \<^verbatim>\<open>get_conversation_messages\<close> lists the first \<open>limit\<close> rows as dictionaries when the
  buffer is empty, and the buffer as it is otherwise.
\<close>

theorem list_messages_sorted:
  "sorted (map h_timestamp (get_conversation_history ag sid)) \<and>
   (memory_manager ag = Some mm \<and> conn_open mm \<and> encodable sid \<longrightarrow>
      (\<exists>rows.
         mset rows = filter_mset (\<lambda>r. c_user_id r = sid) (mset (conversations mm)) \<and>
         sorted (map c_timestamp rows) \<and>
         get_conversation_history ag sid =
           map (\<lambda>r. \<lparr>h_content = c_message r, h_sender = c_sender r,
                      h_timestamp = c_timestamp r\<rparr>) rows \<and>
         chat_memory (load_conversation_history mm sid limit) =
           map (\<lambda>r. if c_sender r = py ''user'' then HumanMessage (c_message r)
                     else AIMessage (c_message r)) (take limit rows) \<and>
         get_conversation_messages mm sid limit =
           (if chat_memory mm = [] then
              map (\<lambda>r. Dict [(''role'', if c_sender r = py ''user'' then py ''user''
                                         else py ''assistant''),
                               (''content'', c_message r)]) (take limit rows)
            else chat_memory mm)))"
proof (intro conjI impI)
  have fr: "h_timestamp \<circ> format_row = c_timestamp"
    by (rule ext) (simp add: format_row_def)
  show "sorted (map h_timestamp (get_conversation_history ag sid))"
    by (simp add: get_conversation_history_def fr sorted_select_conversations
        split: option.splits)
next
  assume a: "memory_manager ag = Some mm \<and> conn_open mm \<and> encodable sid"
  then have x: "execute_raises mm [sid] = None" by (simp add: execute_raises_def)
  let ?rows = "select_conversations mm sid"
  have 1: "mset ?rows = filter_mset (\<lambda>r. c_user_id r = sid) (mset (conversations mm))"
    by (rule mset_select_conversations)
  have 2: "sorted (map c_timestamp ?rows)" by (rule sorted_select_conversations)
  have 3: "get_conversation_history ag sid =
      map (\<lambda>r. \<lparr>h_content = c_message r, h_sender = c_sender r,
                 h_timestamp = c_timestamp r\<rparr>) ?rows"
    using a x by (simp add: get_conversation_history_def format_row_def)
  have 4: "chat_memory (load_conversation_history mm sid limit) =
      map (\<lambda>r. if c_sender r = py ''user'' then HumanMessage (c_message r)
                else AIMessage (c_message r)) (take limit ?rows)"
    using x by (simp add: load_conversation_history_def row_to_message_def)
  have 5: "get_conversation_messages mm sid limit =
      (if chat_memory mm = [] then
         map (\<lambda>r. Dict [(''role'', if c_sender r = py ''user'' then py ''user''
                                    else py ''assistant''),
                          (''content'', c_message r)]) (take limit ?rows)
       else chat_memory mm)"
    using x by (simp add: get_conversation_messages_def row_to_dict_def)
  from 1 2 3 4 5 show "\<exists>rows.
      mset rows = filter_mset (\<lambda>r. c_user_id r = sid) (mset (conversations mm)) \<and>
      sorted (map c_timestamp rows) \<and>
      get_conversation_history ag sid =
        map (\<lambda>r. \<lparr>h_content = c_message r, h_sender = c_sender r,
                   h_timestamp = c_timestamp r\<rparr>) rows \<and>
      chat_memory (load_conversation_history mm sid limit) =
        map (\<lambda>r. if c_sender r = py ''user'' then HumanMessage (c_message r)
                  else AIMessage (c_message r)) (take limit rows) \<and>
      get_conversation_messages mm sid limit =
        (if chat_memory mm = [] then
           map (\<lambda>r. Dict [(''role'', if c_sender r = py ''user'' then py ''user''
                                      else py ''assistant''),
                            (''content'', c_message r)]) (take limit rows)
         else chat_memory mm)"
    by blast
qed

text \<open>
  C9 as stated fails on the in-memory path: the listing for session \<open>s1\<close> is the buffer,
  which holds a message of session \<open>s2\<close> and none of the two stored messages of \<open>s1\<close>.
\<close>

theorem list_messages_buffer_counterexample:
  "get_conversation_messages example_mm (py ''s1'') 30 = [HumanMessage (py ''my secret'')] \<and>
   map h_content (get_conversation_history example_agent (py ''s1'')) =
     [py ''I am here'', py ''I lost my dog'']"
  by (simp add: get_conversation_messages_def get_conversation_history_def example_agent_def
      example_mm_def example_rows_def select_conversations_def format_row_def execute_raises_def)

theorem list_messages_sorted_witness:
  "memory_manager example_agent = Some example_mm \<and> conn_open example_mm \<and>
   encodable (py ''s1'') \<and>
   get_conversation_history example_agent (py ''s1'') =
     [\<lparr>h_content = py ''I am here'', h_sender = py ''assistant'',
        h_timestamp = py ''2024-05-01T09:30:00''\<rparr>,
      \<lparr>h_content = py ''I lost my dog'', h_sender = py ''user'',
        h_timestamp = py ''2024-05-02T10:00:00''\<rparr>] \<and>
   sorted (map h_timestamp (get_conversation_history example_agent (py ''s1''))) \<and>
   chat_memory (load_conversation_history example_mm (py ''s1'') 30) =
     [AIMessage (py ''I am here''), HumanMessage (py ''I lost my dog'')] \<and>
   chat_memory (load_conversation_history example_mm (py ''s1'') 1) =
     [AIMessage (py ''I am here'')]"
  using list_messages_sorted [of example_agent "py ''s1''" example_mm 30]
  by (simp add: example_agent_def example_mm_def example_rows_def get_conversation_history_def
      load_conversation_history_def select_conversations_def format_row_def row_to_message_def
      execute_raises_def)

section \<open>Properties of the string functions\<close>

lemma startswith_iff: "startswith s p \<longleftrightarrow> (\<exists>b. s = p @ b)"
  by (induction s p rule: startswith.induct) auto

lemma str_in_iff: "str_in p s \<longleftrightarrow> (\<exists>a b. s = a @ p @ b)"
proof (induction s)
  case Nil
  then show ?case by simp
next
  case (Cons c cs)
  show ?case
  proof
    assume "str_in p (c # cs)"
    then consider "startswith (c # cs) p" | "str_in p cs" by auto
    then show "\<exists>a b. c # cs = a @ p @ b"
    proof cases
      case 1
      then obtain b where "c # cs = p @ b" using startswith_iff by blast
      then have "c # cs = [] @ p @ b" by simp
      then show ?thesis by blast
    next
      case 2
      then obtain a b where "cs = a @ p @ b" using Cons.IH by blast
      then have "c # cs = (c # a) @ p @ b" by simp
      then show ?thesis by blast
    qed
  next
    assume "\<exists>a b. c # cs = a @ p @ b"
    then obtain a b where ab: "c # cs = a @ p @ b" by blast
    show "str_in p (c # cs)"
    proof (cases a)
      case Nil
      with ab have "startswith (c # cs) p" using startswith_iff by auto
      then show ?thesis by simp
    next
      case (Cons x a')
      with ab have "cs = a' @ p @ b" by simp
      then have "str_in p cs" using Cons.IH by blast
      then show ?thesis by simp
    qed
  qed
qed

lemma str_in_appendI1: "str_in p w \<Longrightarrow> str_in p (w @ s)"
proof -
  assume "str_in p w"
  then obtain a b where "w = a @ p @ b" using str_in_iff by blast
  then have "w @ s = a @ p @ (b @ s)" by simp
  then show ?thesis using str_in_iff by blast
qed

lemma str_in_appendI2: "str_in p s \<Longrightarrow> str_in p (w @ s)"
proof -
  assume "str_in p s"
  then obtain a b where "s = a @ p @ b" using str_in_iff by blast
  then have "w @ s = (w @ a) @ p @ b" by simp
  then show ?thesis using str_in_iff by blast
qed

lemma str_in_Nil: "str_in p [] \<longleftrightarrow> p = []"
  by simp

lemma is_space_32: "is_space 32"
  by (simp add: is_space_def)

lemma join_Cons: "join sep (x # xs) = (if xs = [] then x else x @ sep @ join sep xs)"
  by (cases xs) simp_all

lemma length_join_split_acc: "length (join [32] (split_acc w s)) \<le> length w + length s"
proof (induction s arbitrary: w)
  case Nil
  then show ?case by simp
next
  case (Cons c cs)
  have 1: "length (join [32] (split_acc [] cs)) \<le> length cs"
    using Cons.IH [of "[]"] by simp
  have 2: "length (join [32] (split_acc (w @ [c]) cs)) \<le> length w + 1 + length cs"
    using Cons.IH [of "w @ [c]"] by simp
  from 1 2 show ?case by (simp add: join_Cons)
qed

lemma filter_join_split_acc:
  "list_all (\<lambda>c. \<not> is_space c) w \<Longrightarrow>
   filter (\<lambda>c. \<not> is_space c) (join [32] (split_acc w s)) = w @ filter (\<lambda>c. \<not> is_space c) s"
proof (induction s arbitrary: w)
  case Nil
  then show ?case by (simp add: list_all_iff)
next
  case (Cons c cs)
  have e: "filter (\<lambda>c. \<not> is_space c) (join [32] (split_acc [] cs)) = filter (\<lambda>c. \<not> is_space c) cs"
    using Cons.IH [of "[]"] by simp
  have w: "filter (\<lambda>c. \<not> is_space c) w = w"
    using Cons.prems by (simp add: list_all_iff)
  show ?case
  proof (cases "is_space c")
    case True
    show ?thesis
    proof (cases "split_acc [] cs = []")
      case True
      with e have "filter (\<lambda>c. \<not> is_space c) cs = []" by simp
      with True \<open>is_space c\<close> w show ?thesis by simp
    next
      case False
      with e \<open>is_space c\<close> w show ?thesis by (simp add: join_Cons is_space_32)
    qed
  next
    case False
    then have "list_all (\<lambda>c. \<not> is_space c) (w @ [c])" using Cons.prems by simp
    from Cons.IH [OF this] False show ?thesis by simp
  qed
qed

lemma startswith_append_sep:
  "startswith (u @ c # v) p \<Longrightarrow> c \<notin> set p \<Longrightarrow> startswith u p"
  by (induction u p rule: startswith.induct) auto

lemma str_in_append_sep:
  assumes "p \<noteq> []" "c \<notin> set p" "str_in p (w @ c # cs)"
  shows "str_in p w \<or> str_in p cs"
  using assms(3)
proof (induction w)
  case Nil
  then have "startswith (c # cs) p \<or> str_in p cs" by simp
  moreover have "\<not> startswith (c # cs) p" using assms(1,2) by (cases p) auto
  ultimately show ?case by simp
next
  case (Cons x w)
  then consider "startswith ((x # w) @ c # cs) p" | "str_in p (w @ c # cs)" by auto
  then show ?case
  proof cases
    case 1
    then have "startswith (x # w) p" using assms(2) startswith_append_sep by blast
    then show ?thesis by simp
  next
    case 2
    with Cons.IH show ?thesis by auto
  qed
qed

lemma str_in_join_split_acc:
  assumes "p \<noteq> []" "list_all (\<lambda>c. \<not> is_space c) p"
  shows "list_all (\<lambda>c. \<not> is_space c) w \<Longrightarrow> str_in p (w @ s) \<Longrightarrow>
         str_in p (join [32] (split_acc w s))"
proof (induction s arbitrary: w)
  case Nil
  then have 1: "str_in p w" by simp
  with assms(1) have "w \<noteq> []" by (cases w) auto
  with 1 show ?case by simp
next
  case (Cons c cs)
  show ?case
  proof (cases "is_space c")
    case False
    with Cons.prems have "list_all (\<lambda>c. \<not> is_space c) (w @ [c])" "str_in p ((w @ [c]) @ cs)"
      by simp_all
    from Cons.IH [OF this] False show ?thesis by simp
  next
    case True
    with assms(2) have "c \<notin> set p" by (auto simp: list_all_iff)
    from str_in_append_sep [OF assms(1) this Cons.prems(2)]
    consider "str_in p w" | "str_in p cs" by blast
    then show ?thesis
    proof cases
      case 1
      with assms(1) have "w \<noteq> []" by (cases w) auto
      with 1 True show ?thesis by (simp add: join_Cons str_in_appendI1)
    next
      case 2
      then have j: "str_in p (join [32] (split_acc [] cs))" using Cons.IH [of "[]"] by simp
      with assms(1) have ne: "split_acc [] cs \<noteq> []" by (cases "split_acc [] cs") auto
      from j have "str_in p (w @ [32] @ join [32] (split_acc [] cs))"
        by (intro str_in_appendI2)
      with True j ne show ?thesis by (simp add: join_Cons)
    qed
  qed
qed

lemma split_acc_words:
  "list_all (\<lambda>c. \<not> is_space c) w \<Longrightarrow> x \<in> set (split_acc w s) \<Longrightarrow>
   x \<noteq> [] \<and> list_all (\<lambda>c. \<not> is_space c) x"
proof (induction s arbitrary: w)
  case Nil
  then show ?case by (auto split: if_splits)
next
  case (Cons c cs)
  show ?case
  proof (cases "is_space c")
    case True
    with Cons.prems(2) have "(x = w \<and> w \<noteq> []) \<or> x \<in> set (split_acc [] cs)"
      by (auto split: if_splits)
    then show ?thesis using Cons.IH [of "[]"] Cons.prems(1) by auto
  next
    case False
    with Cons.prems have "list_all (\<lambda>c. \<not> is_space c) (w @ [c])"
      "x \<in> set (split_acc (w @ [c]) cs)" by simp_all
    then show ?thesis by (rule Cons.IH)
  qed
qed

lemma split_ws_words:
  "x \<in> set (split_ws s) \<Longrightarrow> x \<noteq> [] \<and> list_all (\<lambda>c. \<not> is_space c) x"
  unfolding split_ws_def using split_acc_words [of "[]" x s] by simp

lemma find_from_first:
  "str_in sub s \<Longrightarrow>
   \<exists>a b. s = a @ sub @ b \<and> find_from sub s i = int (i + length a) \<and>
         (\<forall>a' b'. s = a' @ sub @ b' \<longrightarrow> length a \<le> length a')"
proof (induction s arbitrary: i)
  case Nil
  then have "sub = []" by simp
  then show ?case by simp
next
  case (Cons c cs)
  show ?case
  proof (cases "startswith (c # cs) sub")
    case True
    then obtain b where "c # cs = sub @ b" using startswith_iff by blast
    then have 1: "c # cs = [] @ sub @ b" by simp
    from True have 2: "find_from sub (c # cs) i = int (i + length ([] :: nat list))" by simp
    have 3: "\<forall>a' b'. c # cs = a' @ sub @ b' \<longrightarrow> length ([] :: nat list) \<le> length a'"
      by simp
    from 1 2 3 show ?thesis by blast
  next
    case False
    with Cons.prems have "str_in sub cs" by simp
    from Cons.IH [OF this, of "Suc i"] obtain a b where ab: "cs = a @ sub @ b"
      "find_from sub cs (Suc i) = int (Suc i + length a)"
      "\<forall>a' b'. cs = a' @ sub @ b' \<longrightarrow> length a \<le> length a'" by blast
    have m: "\<forall>a' b'. c # cs = a' @ sub @ b' \<longrightarrow> length (c # a) \<le> length a'"
    proof (intro allI impI)
      fix a' b'
      assume e: "c # cs = a' @ sub @ b'"
      show "length (c # a) \<le> length a'"
      proof (cases a')
        case Nil
        with e have "startswith (c # cs) sub" using startswith_iff by auto
        with False show ?thesis by simp
      next
        case (Cons x a'')
        with e have "cs = a'' @ sub @ b'" by simp
        with ab(3) have "length a \<le> length a''" by blast
        with Cons show ?thesis by simp
      qed
    qed
    have 1: "c # cs = (c # a) @ sub @ b" using ab(1) by simp
    have 2: "find_from sub (c # cs) i = int (i + length (c # a))" using False ab(2) by simp
    from 1 2 m show ?thesis by blast
  qed
qed

section \<open>Properties of the scripture retrievers\<close>

lemma doc_score_pos:
  "0 < doc_score L qt doc \<longleftrightarrow> list_ex (\<lambda>term. str_in term (str_lower L (page_content doc))) qt"
  by (auto simp: doc_score_def list_ex_iff filter_empty_conv)

lemma word_score_pos:
  "0 < word_score ws t \<longleftrightarrow> list_ex (\<lambda>word. str_in word t) ws"
  by (auto simp: word_score_def list_ex_iff filter_empty_conv)

lemma matches_filter:
  "filter (\<lambda>m. snd m > 0) (map (\<lambda>doc. (doc, doc_score L qt doc)) docs) =
   map (\<lambda>doc. (doc, doc_score L qt doc)) (filter (\<lambda>doc. 0 < doc_score L qt doc) docs)"
  by (induction docs) auto

lemma keyword_fallback_none:
  assumes "filter (\<lambda>doc. 0 < doc_score L (split_ws (str_lower L q)) doc) docs = []"
  shows "keyword_fallback L docs q k = []"
  using assms by (simp add: keyword_fallback_def Let_def matches_filter)

lemma keyword_fallback_unique:
  assumes "filter (\<lambda>doc. 0 < doc_score L (split_ws (str_lower L q)) doc) docs = [d]" and "0 < k"
  shows "keyword_fallback L docs q k = [to_passage (d, doc_score L (split_ws (str_lower L q)) d)]"
proof -
  from assms(1) have "docs \<noteq> []" by auto
  with assms show ?thesis
    by (cases k) (simp_all add: keyword_fallback_def Let_def matches_filter)
qed

lemma reader_scan_none:
  "filter (\<lambda>e. 0 < word_score ws (snd e)) cache = [] \<Longrightarrow>
   reader_scan ws cache best bs = best"
  by (induction cache arbitrary: best bs) (auto split: if_splits)

lemma find_word_Some:
  "0 < word_score ws t \<Longrightarrow> \<exists>w. List.find (\<lambda>word. str_in word t) ws = Some w"
  by (induction ws) (auto simp: word_score_def)

lemma reader_scan_unique:
  assumes "filter (\<lambda>e. 0 < word_score ws (snd e)) cache = [(s, t)]"
    and "List.find (\<lambda>word. str_in word t) ws = Some w"
  shows "reader_scan ws cache None 0 =
     Some \<lparr>r_source = s, r_content = snippet_of t w, r_score = word_score ws t\<rparr>"
  using assms
proof (induction cache)
  case Nil
  then show ?case by simp
next
  case (Cons e cache)
  obtain s' t' where e: "e = (s', t')" by (cases e)
  show ?case
  proof (cases "0 < word_score ws t'")
    case True
    with Cons.prems e have eq: "s' = s" "t' = t"
      and rest: "filter (\<lambda>e. 0 < word_score ws (snd e)) cache = []" by auto
    show ?thesis
      using True Cons.prems(2) by (simp add: e eq reader_scan_none [OF rest])
  next
    case False
    with Cons.prems e have "filter (\<lambda>e. 0 < word_score ws (snd e)) cache = [(s, t)]" by auto
    from Cons.IH [OF this Cons.prems(2)] False show ?thesis by (simp add: e)
  qed
qed

lemma snippet_of_first:
  assumes "str_in w t"
  shows "\<exists>a b. t = a @ w @ b \<and> (\<forall>a' b'. t = a' @ w @ b' \<longrightarrow> length a \<le> length a') \<and>
     snippet_of t w =
       join [32] (split_ws (drop (length a - 100) (take (length a + 200) t)))"
proof -
  from find_from_first [OF assms, of 0] obtain a b where ab: "t = a @ w @ b"
    "find_from w t 0 = int (length a)"
    "\<forall>a' b'. t = a' @ w @ b' \<longrightarrow> length a \<le> length a'" by auto
  have 1: "nat (max 0 (int (length a) - 100)) = length a - 100" by simp
  have 2: "nat (min (int (length t)) (int (length a) + 200)) = min (length t) (length a + 200)"
    by simp
  have 3: "take (min (length t) (length a + 200)) t = take (length a + 200) t"
    by (simp add: min_def)
  have "snippet_of t w =
      join [32] (split_ws (drop (length a - 100) (take (length a + 200) t)))"
    unfolding snippet_of_def Let_def str_find_def ab(2) 1 2 3 ..
  with ab(1,3) show ?thesis by blast
qed

lemma length_snippet_window:
  "length (join [32] (split_ws (drop (n - 100) (take (n + 200) t)))) \<le> 300"
proof -
  have "length (join [32] (split_ws (drop (n - 100) (take (n + 200) t)))) \<le>
      length (drop (n - 100) (take (n + 200) t))"
    unfolding split_ws_def
    using length_join_split_acc [of "[]" "drop (n - 100) (take (n + 200) t)"] by simp
  also have "\<dots> \<le> 300" by simp
  finally show ?thesis .
qed

lemma snippet_window_contains:
  assumes "t = a @ w @ b" "length w \<le> 200" "w \<noteq> []" "list_all (\<lambda>c. \<not> is_space c) w"
  shows "str_in w (join [32] (split_ws (drop (length a - 100) (take (length a + 200) t))))"
proof -
  have "take (length a + 200) t = a @ w @ take (200 - length w) b"
    using assms(1,2) by simp
  then have "drop (length a - 100) (take (length a + 200) t) =
      drop (length a - 100) a @ w @ take (200 - length w) b" by simp
  then have "str_in w ([] @ drop (length a - 100) (take (length a + 200) t))"
    using str_in_iff by auto
  from str_in_join_split_acc [OF assms(3,4) _ this] show ?thesis
    by (simp add: split_ws_def)
qed

text \<open>
  C8. A chunk (a text of the cache) matches a query when one of the terms of the query
  occurs in it. When no chunk matches, \<^verbatim>\<open>find_relevant_passages\<close> returns the empty list
  and \<^verbatim>\<open>ScriptureLangChain.find_relevant_passage\<close> the triple of \<^verbatim>\<open>None\<close>; when
  exactly one chunk matches, its content, its source and its page are returned, with the
  number of terms found as the score. \<^verbatim>\<open>ScriptureReader\<close> returns \<^verbatim>\<open>None\<close> when no
  text matches. When exactly one text matches, the match names that source, its score is the
  number of query words found in the text, and its content is the excerpt around the first
  occurrence of the first query word \<open>w\<close> found in the text: from 100 characters before the
  occurrence to 200 characters after its start, with the white space normalised. The excerpt
  has at most 300 characters, and it contains \<open>w\<close> unless \<open>w\<close> is longer than 200 characters.
  The functions are total: no input makes them raise.
\<close>

theorem scripture_retrieval_unique_or_empty:
  "(filter (\<lambda>doc. list_ex (\<lambda>term. str_in term (str_lower L (page_content doc)))
                     (split_ws (str_lower L q))) docs = [] \<longrightarrow>
      find_relevant_passages L docs q k = [] \<and>
      lc_find_relevant_passage L docs q = (PyNone, PyNone, PyNone)) \<and>
   (filter (\<lambda>doc. list_ex (\<lambda>term. str_in term (str_lower L (page_content doc)))
                     (split_ws (str_lower L q))) docs = [d] \<longrightarrow>
      lc_find_relevant_passage L docs q =
        (PyStr (page_content d),
         dict_get (metadata d) ''source_display''
           (dict_get (metadata d) ''source'' (PyStr (py ''Unknown''))),
         dict_get (metadata d) ''page'' (PyInt 0)) \<and>
      (0 < k \<longrightarrow>
         find_relevant_passages L docs q k =
           [\<lparr>p_content = page_content d,
             p_source = dict_get (metadata d) ''source_display''
                          (dict_get (metadata d) ''source'' (PyStr (py ''Unknown''))),
             p_score = length (filter (\<lambda>term. str_in term (str_lower L (page_content d)))
                                 (split_ws (str_lower L q))),
             p_page = dict_get (metadata d) ''page'' (PyInt 0)\<rparr>])) \<and>
   (filter (\<lambda>e. list_ex (\<lambda>word. str_in word (snd e)) (split_ws (preprocess_text q))) cache = [] \<longrightarrow>
      reader_find_relevant_passage cache q = None) \<and>
   (filter (\<lambda>e. list_ex (\<lambda>word. str_in word (snd e)) (split_ws (preprocess_text q))) cache =
      [(s, t)] \<longrightarrow>
      (\<exists>w a b c.
         List.find (\<lambda>word. str_in word t) (split_ws (preprocess_text q)) = Some w \<and>
         t = a @ w @ b \<and> (\<forall>a' b'. t = a' @ w @ b' \<longrightarrow> length a \<le> length a') \<and>
         c = join [32] (split_ws (drop (length a - 100) (take (length a + 200) t))) \<and>
         reader_find_relevant_passage cache q =
           Some \<lparr>r_source = s, r_content = c,
                  r_score = length (filter (\<lambda>word. str_in word t)
                                      (split_ws (preprocess_text q)))\<rparr> \<and>
         length c \<le> 300 \<and> (length w \<le> 200 \<longrightarrow> str_in w c)))"
proof (intro conjI impI)
  assume "filter (\<lambda>doc. list_ex (\<lambda>term. str_in term (str_lower L (page_content doc)))
                     (split_ws (str_lower L q))) docs = []"
  then have a: "filter (\<lambda>doc. 0 < doc_score L (split_ws (str_lower L q)) doc) docs = []"
    by (simp add: doc_score_pos)
  show "find_relevant_passages L docs q k = []"
    by (simp add: find_relevant_passages_def keyword_fallback_none [OF a])
  show "lc_find_relevant_passage L docs q = (PyNone, PyNone, PyNone)"
    by (simp add: lc_find_relevant_passage_def find_relevant_passages_def
        keyword_fallback_none [OF a])
next
  assume "filter (\<lambda>doc. list_ex (\<lambda>term. str_in term (str_lower L (page_content doc)))
                     (split_ws (str_lower L q))) docs = [d]"
  then have a: "filter (\<lambda>doc. 0 < doc_score L (split_ws (str_lower L q)) doc) docs = [d]"
    by (simp add: doc_score_pos)
  show "lc_find_relevant_passage L docs q =
        (PyStr (page_content d),
         dict_get (metadata d) ''source_display''
           (dict_get (metadata d) ''source'' (PyStr (py ''Unknown''))),
         dict_get (metadata d) ''page'' (PyInt 0))"
    by (simp add: lc_find_relevant_passage_def find_relevant_passages_def
        keyword_fallback_unique [OF a] to_passage_def)
  assume "0 < k"
  then show "find_relevant_passages L docs q k =
           [\<lparr>p_content = page_content d,
             p_source = dict_get (metadata d) ''source_display''
                          (dict_get (metadata d) ''source'' (PyStr (py ''Unknown''))),
             p_score = length (filter (\<lambda>term. str_in term (str_lower L (page_content d)))
                                 (split_ws (str_lower L q))),
             p_page = dict_get (metadata d) ''page'' (PyInt 0)\<rparr>]"
    by (simp add: find_relevant_passages_def keyword_fallback_unique [OF a] to_passage_def
        doc_score_def)
next
  assume "filter (\<lambda>e. list_ex (\<lambda>word. str_in word (snd e)) (split_ws (preprocess_text q))) cache = []"
  then have "filter (\<lambda>e. 0 < word_score (split_ws (preprocess_text q)) (snd e)) cache = []"
    by (simp add: word_score_pos)
  then show "reader_find_relevant_passage cache q = None"
    by (simp add: reader_find_relevant_passage_def reader_scan_none)
next
  let ?ws = "split_ws (preprocess_text q)"
  assume "filter (\<lambda>e. list_ex (\<lambda>word. str_in word (snd e)) ?ws) cache = [(s, t)]"
  then have a: "filter (\<lambda>e. 0 < word_score ?ws (snd e)) cache = [(s, t)]"
    by (simp add: word_score_pos)
  then have "(s, t) \<in> set (filter (\<lambda>e. 0 < word_score ?ws (snd e)) cache)" by simp
  then have "0 < word_score ?ws t" by simp
  then obtain w where w: "List.find (\<lambda>word. str_in word t) ?ws = Some w"
    using find_word_Some by blast
  then have wt: "str_in w t" and "w \<in> set ?ws"
    by (auto simp: find_Some_iff)
  then have wn: "w \<noteq> []" "list_all (\<lambda>c. \<not> is_space c) w"
    using split_ws_words by blast+
  from snippet_of_first [OF wt] obtain a b where ab: "t = a @ w @ b"
    "\<forall>a' b'. t = a' @ w @ b' \<longrightarrow> length a \<le> length a'"
    "snippet_of t w = join [32] (split_ws (drop (length a - 100) (take (length a + 200) t)))"
    by blast
  let ?c = "join [32] (split_ws (drop (length a - 100) (take (length a + 200) t)))"
  from a have "cache \<noteq> []" by auto
  then have r: "reader_find_relevant_passage cache q =
      Some \<lparr>r_source = s, r_content = ?c,
             r_score = length (filter (\<lambda>word. str_in word t) ?ws)\<rparr>"
    by (simp add: reader_find_relevant_passage_def reader_scan_unique [OF a w] ab(3)
        word_score_def)
  have l: "length ?c \<le> 300" by (rule length_snippet_window)
  have c: "length w \<le> 200 \<longrightarrow> str_in w ?c"
    using snippet_window_contains [OF ab(1) _ wn] by blast
  from w ab(1,2) r l c
  show "\<exists>w a b c.
         List.find (\<lambda>word. str_in word t) ?ws = Some w \<and>
         t = a @ w @ b \<and> (\<forall>a' b'. t = a' @ w @ b' \<longrightarrow> length a \<le> length a') \<and>
         c = join [32] (split_ws (drop (length a - 100) (take (length a + 200) t))) \<and>
         reader_find_relevant_passage cache q =
           Some \<lparr>r_source = s, r_content = c,
                  r_score = length (filter (\<lambda>word. str_in word t) ?ws)\<rparr> \<and>
         length c \<le> 300 \<and> (length w \<le> 200 \<longrightarrow> str_in w c)"
    by blast
qed

theorem scripture_retrieval_unique_or_empty_witness:
  "filter (\<lambda>doc. list_ex (\<lambda>term. str_in term (str_lower ascii_lib (page_content doc)))
                    (split_ws (str_lower ascii_lib (py ''art'')))) example_documents =
     [\<lparr>page_content = py ''That thou art'', metadata = [(''source'', PyStr (py ''upanishads.pdf''))]\<rparr>] \<and>
   lc_find_relevant_passage ascii_lib example_documents (py ''art'') =
     (PyStr (py ''That thou art''), PyStr (py ''upanishads.pdf''), PyInt 0) \<and>
   find_relevant_passages ascii_lib example_documents (py ''art'') 2 =
     [\<lparr>p_content = py ''That thou art'', p_source = PyStr (py ''upanishads.pdf''), p_score = 1,
       p_page = PyInt 0\<rparr>] \<and>
   filter (\<lambda>e. list_ex (\<lambda>word. str_in word (snd e)) (split_ws (preprocess_text (py ''art''))))
     example_cache = [(py ''upanishads.pdf'', py ''That thou art'')] \<and>
   reader_find_relevant_passage example_cache (py ''art'') =
     Some \<lparr>r_source = py ''upanishads.pdf'', r_content = py ''That thou art'', r_score = 1\<rparr> \<and>
   filter (\<lambda>doc. list_ex (\<lambda>term. str_in term (str_lower ascii_lib (page_content doc)))
                    (split_ws (str_lower ascii_lib (py ''xyzzy'')))) example_documents = [] \<and>
   find_relevant_passages ascii_lib example_documents (py ''xyzzy'') 2 = [] \<and>
   lc_find_relevant_passage ascii_lib example_documents (py ''xyzzy'') = (PyNone, PyNone, PyNone) \<and>
   filter (\<lambda>e. list_ex (\<lambda>word. str_in word (snd e)) (split_ws (preprocess_text (py ''xyzzy''))))
     example_cache = [] \<and>
   reader_find_relevant_passage example_cache (py ''xyzzy'') = None"
proof -
  have a: "filter (\<lambda>doc. list_ex (\<lambda>term. str_in term (str_lower ascii_lib (page_content doc)))
                    (split_ws (str_lower ascii_lib (py ''art'')))) example_documents =
     [\<lparr>page_content = py ''That thou art'', metadata = [(''source'', PyStr (py ''upanishads.pdf''))]\<rparr>]"
    by (simp add: example_documents_def split_ws_def ascii_lib_def ascii_lower_def is_space_def)
  have b: "filter (\<lambda>e. list_ex (\<lambda>word. str_in word (snd e)) (split_ws (preprocess_text (py ''art''))))
     example_cache = [(py ''upanishads.pdf'', py ''That thou art'')]"
    by (simp add: example_cache_def split_ws_def preprocess_text_def strip_def is_space_def
        is_punct_def is_ascii_letter_def)
  have c: "filter (\<lambda>doc. list_ex (\<lambda>term. str_in term (str_lower ascii_lib (page_content doc)))
                    (split_ws (str_lower ascii_lib (py ''xyzzy'')))) example_documents = []"
    by (simp add: example_documents_def split_ws_def ascii_lib_def ascii_lower_def is_space_def)
  have d: "filter (\<lambda>e. list_ex (\<lambda>word. str_in word (snd e)) (split_ws (preprocess_text (py ''xyzzy''))))
     example_cache = []"
    by (simp add: example_cache_def split_ws_def preprocess_text_def strip_def is_space_def
        is_punct_def is_ascii_letter_def)
  have ws: "split_ws (preprocess_text (py ''art'')) = [py ''art'']"
    by (simp add: split_ws_def preprocess_text_def strip_def is_space_def is_punct_def
        is_ascii_letter_def)
  have sc: "length (filter (\<lambda>term. str_in term (str_lower ascii_lib (py ''That thou art'')))
      (split_ws (str_lower ascii_lib (py ''art'')))) = 1"
    by (simp add: split_ws_def ascii_lib_def ascii_lower_def is_space_def)
  note inst = scripture_retrieval_unique_or_empty
      [of ascii_lib "py ''art''" example_documents 2
        "\<lparr>page_content = py ''That thou art'', metadata = [(''source'', PyStr (py ''upanishads.pdf''))]\<rparr>"
        example_cache "py ''upanishads.pdf''" "py ''That thou art''"]
  from inst a
  have 1: "lc_find_relevant_passage ascii_lib example_documents (py ''art'') =
     (PyStr (py ''That thou art''), PyStr (py ''upanishads.pdf''), PyInt 0)"
    by (simp add: dict_get_def)
  from inst a sc
  have 2: "find_relevant_passages ascii_lib example_documents (py ''art'') 2 =
     [\<lparr>p_content = py ''That thou art'', p_source = PyStr (py ''upanishads.pdf''), p_score = 1,
       p_page = PyInt 0\<rparr>]"
    by (simp add: dict_get_def)
  from inst b
  have "\<exists>c. reader_find_relevant_passage example_cache (py ''art'') =
       Some \<lparr>r_source = py ''upanishads.pdf'', r_content = c,
              r_score = length (filter (\<lambda>word. str_in word (py ''That thou art''))
                 (split_ws (preprocess_text (py ''art''))))\<rparr> \<and> length c \<le> 300"
    by blast
  then obtain c where c1: "reader_find_relevant_passage example_cache (py ''art'') =
       Some \<lparr>r_source = py ''upanishads.pdf'', r_content = c, r_score = 1\<rparr>"
    unfolding ws by auto
  have "reader_find_relevant_passage example_cache (py ''art'') =
      reader_scan [py ''art''] example_cache None 0"
    unfolding reader_find_relevant_passage_def ws by (simp add: example_cache_def)
  also have "\<dots> =
      Some \<lparr>r_source = py ''upanishads.pdf'', r_content = py ''That thou art'', r_score = 1\<rparr>"
    by (simp add: example_cache_def word_score_def snippet_of_def str_find_def split_ws_def
        is_space_def Let_def)
  finally have "r_content (the (reader_find_relevant_passage example_cache (py ''art''))) =
      py ''That thou art''" by simp
  with c1 have 3: "reader_find_relevant_passage example_cache (py ''art'') =
     Some \<lparr>r_source = py ''upanishads.pdf'', r_content = py ''That thou art'', r_score = 1\<rparr>"
    by simp
  from scripture_retrieval_unique_or_empty
      [of ascii_lib "py ''xyzzy''" example_documents 2 undefined example_cache undefined undefined] c d
  have 4: "find_relevant_passages ascii_lib example_documents (py ''xyzzy'') 2 = []"
    and 5: "lc_find_relevant_passage ascii_lib example_documents (py ''xyzzy'') = (PyNone, PyNone, PyNone)"
    and 6: "reader_find_relevant_passage example_cache (py ''xyzzy'') = None"
    by auto
  from a b c d 1 2 3 4 5 6 show ?thesis by blast
qed

section \<open>Properties of the entity tracker\<close>

text \<open>
  C10. Running \<^verbatim>\<open>_track_entities\<close> a second time on the same message leaves the
  registry of the session as the first run left it, whatever the case mapping and the
  regular expression engine are: the found entities are merged into the sets by union. The
  lists returned by the two runs are the same as well.
\<close>

theorem track_entities_idempotent:
  "session_entities (fst (track_entities L findall (fst (track_entities L findall ag m)) m)) =
     session_entities (fst (track_entities L findall ag m)) \<and>
   snd (track_entities L findall (fst (track_entities L findall ag m)) m) =
     snd (track_entities L findall ag m)"
  by (simp add: track_entities_def Let_def Un_assoc)

theorem track_entities_idempotent_witness:
  "people (session_entities (fst (track_entities ascii_lib findall_nothing example_agent
      (py ''I met Sarah at the wedding. It was in Paris'')))) = {py ''Sarah'', py ''Paris''} \<and>
   events (session_entities (fst (track_entities ascii_lib findall_nothing example_agent
      (py ''I met Sarah at the wedding. It was in Paris'')))) = {py ''wedding''} \<and>
   session_entities (fst (track_entities ascii_lib findall_nothing
      (fst (track_entities ascii_lib findall_nothing example_agent
         (py ''I met Sarah at the wedding. It was in Paris'')))
      (py ''I met Sarah at the wedding. It was in Paris''))) =
   session_entities (fst (track_entities ascii_lib findall_nothing example_agent
      (py ''I met Sarah at the wedding. It was in Paris'')))"
proof -
  have p: "find_people ascii_lib (py ''I met Sarah at the wedding. It was in Paris'') =
      [py ''Sarah'', py ''Paris'']"
    by (simp add: find_people_def split_ws_def is_space_def is_person_word_def strip_def
        ascii_lib_def ascii_isupper_def ascii_lower_def pronoun_words_def
        capitalised_stoplist_def)
  have e: "find_events ascii_lib findall_nothing
      (py ''I met Sarah at the wedding. It was in Paris'') = [py ''wedding'']"
    by (simp add: find_events_def findall_nothing_def event_indicators_def ascii_lib_def
        ascii_lower_def)
  have 1: "people (session_entities (fst (track_entities ascii_lib findall_nothing example_agent
      (py ''I met Sarah at the wedding. It was in Paris'')))) = {py ''Sarah'', py ''Paris''}"
    unfolding track_entities_def extract_entities_def Let_def p
    by (simp add: example_agent_def)
  have 2: "events (session_entities (fst (track_entities ascii_lib findall_nothing example_agent
      (py ''I met Sarah at the wedding. It was in Paris'')))) = {py ''wedding''}"
    unfolding track_entities_def extract_entities_def Let_def e
    by (simp add: example_agent_def)
  from track_entities_idempotent [of ascii_lib findall_nothing example_agent
      "py ''I met Sarah at the wedding. It was in Paris''"] 1 2
  show ?thesis by blast
qed

section \<open>Properties of \<^verbatim>\<open>get_response\<close>\<close>

















lemma route_why_question: "route (strip (str_lower ascii_lib (py ''why?''))) = FollowUp"
  by (simp add: route_def strip_def ascii_lib_def ascii_lower_def is_space_def any_in_def
      is_followup_question_def followup_markers_def)

lemma route_sad: "route (strip (str_lower ascii_lib (py ''I feel sad today''))) = DefaultPath"
  by (simp add: route_def strip_def ascii_lib_def ascii_lower_def is_space_def any_in_def
      is_followup_question_def followup_markers_def is_correction_def correction_markers_def
      endswith_def)

lemma lib_example_env [simp]: "lib example_env = ascii_lib"
  by (simp add: example_env_def)



lemma save_mood_keeps [simp]:
  "conn_open (save_mood now mm uid mood) = conn_open mm"
  "conversations (save_mood now mm uid mood) = conversations mm"
  by (simp_all add: save_mood_def split: option.splits)

lemma track_entities_keeps [simp]:
  "memory_manager (fst (track_entities L f ag m)) = memory_manager ag"
  "session_id (fst (track_entities L f ag m)) = session_id ag"
  "scripture_processor (fst (track_entities L f ag m)) = scripture_processor ag"
  by (simp_all add: track_entities_def Let_def)

lemma enhance_with_scripture_keeps [simp]:
  "enhance_with_scripture L (fst (track_entities L' f ag m)) q = enhance_with_scripture L ag q"
  "enhance_with_scripture L (ag\<lparr>memory_manager := x\<rparr>) q = enhance_with_scripture L ag q"
  by (simp_all add: enhance_with_scripture_def)

lemma encodable_assistant [simp]: "encodable (py ''assistant'')"
  by simp







lemma get_response_generated:
  assumes "memory_manager ag = Some mm" and "completion e = Inr content"
  shows "route (strip (str_lower (lib e) m)) = DefaultPath \<Longrightarrow>
           response_text (snd (get_response e ag m)) = postprocess (lib e) (strip content)"
    and "route (strip (str_lower (lib e) m)) \<in> {FollowUp, Correction} \<Longrightarrow>
           snd (get_response e ag m) = Text (strip content)"
  using assms
  by (auto simp: get_response_def get_response_body_def default_path_def generated_reply_def
      with_memory_manager_def Let_def)




lemma row_to_dict_no_timestamp: "msg_timestamp (row_to_dict r) = None"
  by (simp add: row_to_dict_def)

lemma get_conversation_messages_no_timestamp:
  assumes "list_all (\<lambda>msg. msg_timestamp msg = None) (chat_memory mm)"
  shows "list_all (\<lambda>msg. msg_timestamp msg = None) (get_conversation_messages mm uid l)"
  using assms
  by (auto simp: get_conversation_messages_def list_all_iff row_to_dict_no_timestamp
      split: option.splits)

lemma save_message_no_timestamp:
  assumes "list_all (\<lambda>msg. msg_timestamp msg = None) (chat_memory mm)"
  shows "list_all (\<lambda>msg. msg_timestamp msg = None)
           (chat_memory (save_message now mm uid msg sndr))"
  using assms by (simp add: chat_memory_save_message)

lemma load_conversation_history_no_timestamp:
  "list_all (\<lambda>msg. msg_timestamp msg = None)
     (chat_memory (load_conversation_history mm uid l))"
  by (auto simp: load_conversation_history_def list_all_iff row_to_message_def
      split: option.splits)

lemma temporal_response_without_timestamps:
  assumes "list_all (\<lambda>msg. msg_timestamp msg = None) msgs"
  shows "temporal_response e m msgs = not_found_response e msgs \<or>
         temporal_response e m msgs =
           py ''You shared that with me earlier. Is there something specific about it you'd like to discuss?''"
proof (cases "List.find (topic_in (lib e) (extract_topic (lib e) m)) (rev (butlast msgs))")
  case None
  then show ?thesis by (simp add: temporal_response_def)
next
  case (Some msg)
  then have "msg \<in> set (rev (butlast msgs))"
    by (metis find_Some_iff nth_mem)
  then have "msg \<in> set msgs" by (auto dest: in_set_butlastD)
  with assms have "msg_timestamp msg = None" by (simp add: list_all_iff)
  with Some show ?thesis by (simp add: temporal_response_def)
qed

text \<open>
  C4 (the code at the failing input). The buffer holds the user's earlier message
  \<^verbatim>\<open>I lost my dog\<close> and the reply; the user asks
  \<^verbatim>\<open>When did we talk about my dog?\<close>. The topic \<^verbatim>\<open>my dog\<close> is extracted and the
  earlier message is found, but a message of the history never carries a timestamp, so the
  reply is the fixed \<^verbatim>\<open>You shared that with me earlier\<close> and no elapsed time is
  computed, although the clock would give two minutes.
\<close>

theorem temporal_recall_example:
  "time_diff example_env (py ''2024-05-01T09:30:00'') = Some (0, 120) \<and>
   extract_topic (lib example_env) (py ''When did we talk about my dog?'') = Some (py ''my dog'') \<and>
   snd (get_response example_env recall_agent (py ''When did we talk about my dog?'')) =
     Text (py ''You shared that with me earlier. Is there something specific about it you'd like to discuss?'')"
proof -
  have t: "extract_topic ascii_lib (py ''When did we talk about my dog?'') = Some (py ''my dog'')"
    by (simp add: extract_topic_def Let_def str_find_def strip_def ascii_lib_def ascii_lower_def
        is_space_def endswith_def)
  have r: "route (strip (str_lower ascii_lib (py ''When did we talk about my dog?''))) =
      TemporalRecall"
    by (simp add: route_def strip_def ascii_lib_def ascii_lower_def is_space_def any_in_def)
  have f: "List.find (topic_in ascii_lib (Some (py ''my dog'')))
             (rev (butlast [HumanMessage (py ''I lost my dog''), AIMessage (py ''I am here''),
                HumanMessage (py ''When did we talk about my dog?'')])) =
           Some (HumanMessage (py ''I lost my dog''))"
    by (simp add: topic_in_def ascii_lib_def ascii_lower_def)
  have c: "clock example_env 0 = py ''2024-05-03T08:00:00''" by (simp add: example_env_def)
  have mmr: "memory_manager recall_agent = Some recall_mm" by (simp add: recall_agent_def)
  have m: "get_conversation_messages
      (save_message (clock example_env 0) recall_mm (session_id recall_agent)
         (py ''When did we talk about my dog?'') (py ''user'')) (session_id recall_agent) 30 =
      [HumanMessage (py ''I lost my dog''), AIMessage (py ''I am here''),
       HumanMessage (py ''When did we talk about my dog?'')]"
    unfolding c
    by (simp add: get_conversation_messages_def chat_memory_save_message recall_mm_def
        recall_agent_def)
  have tr: "temporal_response example_env (py ''When did we talk about my dog?'')
      [HumanMessage (py ''I lost my dog''), AIMessage (py ''I am here''),
       HumanMessage (py ''When did we talk about my dog?'')] =
      py ''You shared that with me earlier. Is there something specific about it you'd like to discuss?''"
    unfolding temporal_response_def lib_example_env t f by simp
  have b: "snd (get_response_body example_env recall_agent (py ''When did we talk about my dog?'')) =
     Inr (Text (py ''You shared that with me earlier. Is there something specific about it you'd like to discuss?''))"
    unfolding get_response_body_def lib_example_env r
    by (simp add: temporal_recall_def with_memory_manager_def Let_def mmr m [simplified]
        tr [simplified])
  have d: "time_diff example_env (py ''2024-05-01T09:30:00'') = Some (0, 120)"
    by (simp add: example_env_def)
  from b d t show ?thesis by (simp add: get_response_def)
qed

section \<open>Properties of the post-processing\<close>

lemma length_deflection: "length deflection = 209"
  by (simp add: deflection_def)

lemma truncate_reply_deflection: "truncate_reply deflection = deflection"
  by (simp add: truncate_reply_def length_deflection)

lemma emoji_count_deflection: "emoji_count deflection = 0"
  by (simp add: emoji_count_def allowed_emojis_def deflection_def)

lemma cap_emojis_deflection: "cap_emojis deflection = deflection"
  by (simp add: cap_emojis_def emoji_count_deflection)

lemma strip_astral_deflection: "strip_astral deflection = deflection"
  by (simp add: strip_astral_def is_astral_def deflection_def)

lemma strip_emoticons_deflection: "strip_emoticons deflection = deflection"
  by (simp add: emoticons_def deflection_def)

lemma collapse_ws_deflection: "collapse_ws deflection = deflection"
  by (simp add: is_space_def deflection_def)

lemma strip_deflection: "strip deflection = deflection"
  by (simp add: strip_def is_space_def deflection_def)

lemma postprocess_denylisted: "denylisted L t \<Longrightarrow> postprocess L t = deflection"
  by (simp add: postprocess_def deny_def truncate_reply_deflection cap_emojis_deflection
      strip_astral_deflection strip_emoticons_deflection collapse_ws_deflection strip_deflection)

lemma length_strip: "length (strip s) \<le> length s"
proof -
  have "length (dropWhile is_space (rev (dropWhile is_space s))) \<le> length (rev (dropWhile is_space s))"
    by (rule length_dropWhile_le)
  also have "\<dots> \<le> length s" by (simp add: length_dropWhile_le)
  finally show ?thesis by (simp add: strip_def)
qed

lemma length_collapse_ws: "length (collapse_ws s) \<le> length s"
  by (induction s rule: collapse_ws.induct) auto

lemma length_strip_emoticons: "length (strip_emoticons s) \<le> length s"
  by (induction s rule: strip_emoticons.induct) auto

lemma length_strip_astral: "length (strip_astral s) \<le> length s"
  by (simp add: strip_astral_def)

lemma length_remove_all: "length (remove_all old s) \<le> length s"
proof (induction old s rule: remove_all.induct)
  case (1 old)
  then show ?case by simp
next
  case (2 old c cs)
  show ?case
  proof (cases "old \<noteq> [] \<and> startswith (c # cs) old")
    case True
    with 2 have "length (remove_all old (drop (length old - 1) cs)) \<le> length cs"
      by (auto intro: order_trans)
    with True show ?thesis by simp
  next
    case False
    with 2 show ?thesis by auto
  qed
qed

lemma length_foldl_remove:
  "length (foldl (\<lambda>text emoji. if Q emoji then remove_all emoji text else text) s es) \<le> length s"
proof (induction es arbitrary: s)
  case Nil
  then show ?case by simp
next
  case (Cons x es)
  have "length (foldl (\<lambda>text emoji. if Q emoji then remove_all emoji text else text)
          (if Q x then remove_all x s else s) es) \<le> length (if Q x then remove_all x s else s)"
    by (rule Cons.IH)
  also have "\<dots> \<le> length s" by (simp add: length_remove_all)
  finally show ?case by simp
qed

lemma length_cap_emojis: "length (cap_emojis s) \<le> length s"
  by (simp add: cap_emojis_def length_foldl_remove)

lemma length_truncate_reply: "length (truncate_reply s) \<le> 800"
  by (simp add: truncate_reply_def)

lemma length_postprocess: "length (postprocess L t) \<le> 800"
proof -
  have "length (postprocess L t) \<le> length (truncate_reply (deny L t))"
    unfolding postprocess_def
    by (meson length_strip length_collapse_ws length_strip_emoticons length_strip_astral
        length_cap_emojis order_trans)
  then show ?thesis using length_truncate_reply [of "deny L t"] by linarith
qed

lemma set_strip: "set (strip s) \<subseteq> set s"
proof -
  have "set (strip s) \<subseteq> set (rev (dropWhile is_space s))"
    unfolding strip_def using set_dropWhileD by fastforce
  also have "\<dots> \<subseteq> set s" using set_dropWhileD by fastforce
  finally show ?thesis .
qed

lemma set_collapse_ws: "set (collapse_ws s) \<subseteq> insert 32 (set s)"
  by (induction s rule: collapse_ws.induct) auto

lemma set_strip_emoticons: "set (strip_emoticons s) \<subseteq> set s"
  by (induction s rule: strip_emoticons.induct) auto

lemma no_astral_postprocess: "list_all (\<lambda>c. \<not> is_astral c) (postprocess L t)"
proof -
  have a: "\<not> is_astral 32" by (simp add: is_astral_def)
  have "\<And>c. c \<in> set (strip_astral (cap_emojis (truncate_reply (deny L t)))) \<Longrightarrow> \<not> is_astral c"
    by (simp add: strip_astral_def)
  then have "\<And>c. c \<in> set (postprocess L t) \<Longrightarrow> \<not> is_astral c"
    unfolding postprocess_def
    using set_strip set_collapse_ws set_strip_emoticons a
    by (metis insertE subsetD)
  then show ?thesis by (simp add: list_all_iff)
qed

lemma collapse_ws_head:
  "\<exists>r. collapse_ws (c # cs) = (if is_space c then 32 else c) # r"
proof (induction "c # cs" arbitrary: c cs rule: collapse_ws.induct)
  case (2 c)
  then show ?case by simp
next
  case (3 c d cs)
  then show ?case by (auto simp: is_space_def)
qed

lemma ws_normal_run_collapse_ws: "ws_normal_run (collapse_ws s)"
proof (induction s rule: collapse_ws.induct)
  case 1
  then show ?case by simp
next
  case (2 c)
  then show ?case by simp
next
  case (3 c d cs)
  obtain r where r: "collapse_ws (d # cs) = (if is_space d then 32 else d) # r"
    using collapse_ws_head by blast
  show ?case
  proof (cases "is_space c")
    case True
    show ?thesis
    proof (cases "is_space d")
      case True
      with \<open>is_space c\<close> 3 show ?thesis by simp
    next
      case False
      with \<open>is_space c\<close> 3 r show ?thesis by simp
    qed
  next
    case False
    with 3 r show ?thesis by simp
  qed
qed

lemma ws_normal_run_Cons: "ws_normal_run (c # s) \<Longrightarrow> ws_normal_run s"
  by (cases s) (auto split: if_splits)

lemma ws_normal_run_suffix: "ws_normal_run (a @ b) \<Longrightarrow> ws_normal_run b"
  by (induction a) (auto dest: ws_normal_run_Cons)

lemma ws_normal_run_prefix: "ws_normal_run (a @ b) \<Longrightarrow> ws_normal_run a"
proof (induction a rule: ws_normal_run.induct)
  case 1
  then show ?case by simp
next
  case (2 c)
  then show ?case by (cases b) (auto split: if_splits)
next
  case (3 c d cs)
  then show ?case by (auto split: if_splits)
qed

lemma ws_normal_run_strip: "ws_normal_run s \<Longrightarrow> ws_normal_run (strip s)"
proof -
  assume a: "ws_normal_run s"
  let ?u = "dropWhile is_space s"
  have "s = takeWhile is_space s @ ?u" by simp
  with a have u: "ws_normal_run ?u" using ws_normal_run_suffix by metis
  let ?v = "dropWhile is_space (rev ?u)"
  have "rev ?u = takeWhile is_space (rev ?u) @ ?v" by simp
  then have "?u = rev ?v @ rev (takeWhile is_space (rev ?u))"
    by (metis rev_append rev_rev_ident)
  with u have "ws_normal_run (rev ?v)" using ws_normal_run_prefix by metis
  then show ?thesis by (simp add: strip_def)
qed

lemma strip_ends:
  "strip s = [] \<or> (\<not> is_space (hd (strip s)) \<and> \<not> is_space (last (strip s)))"
proof (cases "strip s = []")
  case True
  then show ?thesis by simp
next
  case False
  let ?u = "dropWhile is_space s"
  let ?v = "dropWhile is_space (rev ?u)"
  from False have v: "?v \<noteq> []" by (simp add: strip_def)
  then have 1: "\<not> is_space (hd ?v)" by (rule hd_dropWhile)
  have ru: "rev ?u = takeWhile is_space (rev ?u) @ ?v" by simp
  from v have "rev ?u \<noteq> []" by (metis dropWhile.simps(1))
  then have u: "?u \<noteq> []" by simp
  then have 2: "\<not> is_space (hd ?u)" by (rule hd_dropWhile)
  have "last (rev ?u) = last ?v" using ru v by (metis last_appendR)
  then have "last ?v = hd ?u" using u by (simp add: last_rev)
  with 2 have 3: "\<not> is_space (last ?v)" by simp
  have "hd (strip s) = last ?v" using v by (simp add: strip_def hd_rev)
  moreover have "last (strip s) = hd ?v" using v by (simp add: strip_def last_rev)
  ultimately show ?thesis using 1 3 by simp
qed

lemma ws_normal_postprocess: "ws_normal (postprocess L t)"
proof -
  have "ws_normal_run (postprocess L t)"
    unfolding postprocess_def by (rule ws_normal_run_strip) (rule ws_normal_run_collapse_ws)
  moreover have "postprocess L t = [] \<or>
      (\<not> is_space (hd (postprocess L t)) \<and> \<not> is_space (last (postprocess L t)))"
    unfolding postprocess_def by (rule strip_ends)
  ultimately show ?thesis by (auto simp: ws_normal_def)
qed

lemma get_response_default:
  assumes "memory_manager ag = Some mm" and "completion e = Inr content"
    and "route (strip (str_lower (lib e) m)) = DefaultPath" and "\<not> draw_scripture e"
  shows "snd (get_response e ag m) = Text (postprocess (lib e) (strip content))"
  using assms
  by (simp add: get_response_def get_response_body_def default_path_def
      with_memory_manager_def Let_def)

lemma route_no: "route (strip (str_lower ascii_lib (py ''No.''))) = Correction"
  by (simp add: route_def strip_def ascii_lib_def ascii_lower_def is_space_def any_in_def
      is_followup_question_def followup_markers_def is_correction_def correction_markers_def
      endswith_def)

lemma strip_example_completion:
  "strip (py ''  I remember you mentioned your dog :)  '') =
     py ''I remember you mentioned your dog :)''"
  by (simp add: strip_def is_space_def)

lemma denylisted_example: "denylisted ascii_lib (py ''I remember you mentioned your dog :)'')"
  by (simp add: denylisted_def ascii_lib_def ascii_lower_def)

lemma postprocess_examples:
  "postprocess ascii_lib [10024, 32, 104, 105, 32, 10024] = [10024, 32, 104, 105, 32, 10024]"
  "postprocess ascii_lib [10024, 32, 104, 105, 32, 9774, 65039] = [10024, 32, 104, 105]"
  "postprocess ascii_lib [104, 105, 32, 128591] = [104, 105]"
  "postprocess ascii_lib (py ''fine :)'') = py ''fine''"
  "postprocess ascii_lib (py ''::))'') = py '':)''"
  by (simp_all add: postprocess_def deny_def denylisted_def ascii_lib_def ascii_lower_def
      truncate_reply_def cap_emojis_def emoji_count_def allowed_emojis_def first_emoji_def
      first_emoji_step_def str_find_def strip_astral_def is_astral_def emoticons_def
      is_space_def strip_def Let_def)

text \<open>
  C3 (the code at the failing inputs). The generation service answers
  \<^verbatim>\<open>I remember you mentioned your dog :)\<close> between blanks. On the default path
  (\<^verbatim>\<open>I feel sad today\<close>) the reply matches the denylist and the deflection string is
  returned; on the follow-up path (\<^verbatim>\<open>why?\<close>) and on the correction path
  (\<^verbatim>\<open>No.\<close>) the same reply is returned with its denylisted phrase and its emoticon,
  stripped of the surrounding blanks only. The post-processing of the default path itself
  keeps an allow-listed symbol that occurs twice (U+2728 around \<^verbatim>\<open>hi\<close>) although it
  removes a second, different allow-listed symbol; it removes the allow-listed U+1F64F with
  the other code points from U+10000 on; and of \<^verbatim>\<open>::))\<close> it leaves the emoticon
  \<^verbatim>\<open>:)\<close>, although it removes the emoticon of \<^verbatim>\<open>fine :)\<close>.
\<close>

theorem postprocessing_example:
  "completion example_env = Inr (py ''  I remember you mentioned your dog :)  '') \<and>
   route (strip (str_lower (lib example_env) (py ''I feel sad today''))) = DefaultPath \<and>
   snd (get_response example_env recall_agent (py ''I feel sad today'')) = Text deflection \<and>
   route (strip (str_lower (lib example_env) (py ''why?''))) = FollowUp \<and>
   snd (get_response example_env recall_agent (py ''why?'')) =
     Text (py ''I remember you mentioned your dog :)'') \<and>
   route (strip (str_lower (lib example_env) (py ''No.''))) = Correction \<and>
   snd (get_response example_env recall_agent (py ''No.'')) =
     Text (py ''I remember you mentioned your dog :)'') \<and>
   postprocess ascii_lib [10024, 32, 104, 105, 32, 10024] = [10024, 32, 104, 105, 32, 10024] \<and>
   postprocess ascii_lib [10024, 32, 104, 105, 32, 9774, 65039] = [10024, 32, 104, 105] \<and>
   postprocess ascii_lib [104, 105, 32, 128591] = [104, 105] \<and>
   postprocess ascii_lib (py ''fine :)'') = py ''fine'' \<and>
   postprocess ascii_lib (py ''::))'') = py '':)''"
proof -
  have a: "memory_manager recall_agent = Some recall_mm" by (simp add: recall_agent_def)
  have b: "completion example_env = Inr (py ''  I remember you mentioned your dog :)  '')"
    by (simp add: example_env_def)
  have d: "\<not> draw_scripture example_env" by (simp add: example_env_def)
  have r1: "route (strip (str_lower (lib example_env) (py ''I feel sad today''))) = DefaultPath"
    using route_sad by simp
  have r2: "route (strip (str_lower (lib example_env) (py ''why?''))) = FollowUp"
    using route_why_question by simp
  have r3: "route (strip (str_lower (lib example_env) (py ''No.''))) = Correction"
    using route_no by simp
  have p: "postprocess ascii_lib (py ''I remember you mentioned your dog :)'') = deflection"
    by (rule postprocess_denylisted) (rule denylisted_example)
  have 1: "snd (get_response example_env recall_agent (py ''I feel sad today'')) = Text deflection"
    unfolding get_response_default [OF a b r1 d] lib_example_env strip_example_completion p ..
  have 2: "snd (get_response example_env recall_agent (py ''why?'')) =
      Text (py ''I remember you mentioned your dog :)'')"
    using get_response_generated(2) [OF a b, of "py ''why?''"] r2
    unfolding strip_example_completion by simp
  have 3: "snd (get_response example_env recall_agent (py ''No.'')) =
      Text (py ''I remember you mentioned your dog :)'')"
    using get_response_generated(2) [OF a b, of "py ''No.''"] r3
    unfolding strip_example_completion by simp
  from b r1 1 r2 2 r3 3 postprocess_examples show ?thesis by blast
qed

end
